theory Spec2Isabelle
  imports Complex_Main
begin

section \<open>HeaterMeter control core: \<^verbatim>\<open>arduino/heatermeter/grillpid.cpp\<close>\<close>

text \<open>
  A shallow embedding of the alarm, probe and PID code of \<^verbatim>\<open>grillpid.cpp\<close>.
  Every C++ member function becomes a HOL function from the object's state to its new
  state, under the name it has in the source (a leading underscore of a member name is
  dropped, since an Isabelle name cannot start with one).

  Machine integers are mathematical integers with the narrowing written out: \<open>u8\<close> for
  a store into an \<^verbatim>\<open>unsigned char\<close>, \<open>u16\<close> for \<^verbatim>\<open>unsigned int\<close>
  arithmetic (the target is an 8-bit AVR, where \<^verbatim>\<open>int\<close> has 16 bits). C leaves the
  overflow of the signed \<^verbatim>\<open>int\<close> undefined. Where a product of program values can
  leave the 16 bits, in the lid-open percentage of \<^verbatim>\<open>doWork\<close>, the wrap-around of the
  target is written out with \<open>s16\<close>; the sums \<^verbatim>\<open>getLow() + 1\<close> and
  \<^verbatim>\<open>getHigh() - 1\<close> of \<^verbatim>\<open>updateStatus\<close> are taken on the mathematical integers.
\<close>

subsection \<open>Integers\<close>

definition u8 :: "int \<Rightarrow> int" where
  "u8 x = x mod 256"

definition u16 :: "int \<Rightarrow> int" where
  "u16 x = x mod 65536"

text \<open>The value that 16 bits in two's complement hold of an integer.\<close>

definition s16 :: "int \<Rightarrow> int" where
  "s16 x = (x + 32768) mod 65536 - 32768"

text \<open>The division of C truncates towards zero; \<open>div\<close> of HOL rounds down.\<close>

definition c_div :: "int \<Rightarrow> int \<Rightarrow> int" where
  "c_div a b = sgn a * sgn b * (\<bar>a\<bar> div \<bar>b\<bar>)"

text \<open>The \<^verbatim>\<open>constrain(amt, low, high)\<close> macro of the Arduino core.\<close>

definition constrain :: "int \<Rightarrow> int \<Rightarrow> int \<Rightarrow> int" where
  "constrain amt low high = (if amt < low then low else if amt > high then high else amt)"

text \<open>
  \<^verbatim>\<open>#define mappct(o, a, b)  (((b - a) * (unsigned int)o / 100) + a)\<close>:
  the product and the sum are \<^verbatim>\<open>unsigned int\<close>.
\<close>

definition mappct :: "int \<Rightarrow> int \<Rightarrow> int \<Rightarrow> int" where
  "mappct o' a b = u16 (u16 ((b - a) * u16 o') div 100 + a)"

subsection \<open>Floating-point values\<close>

text \<open>
  A \<^verbatim>\<open>float\<close> is either the not-a-number marker or a real number: rounding and the
  infinities of IEEE arithmetic are left out (a division by zero and a logarithm outside
  its domain give \<open>NaN\<close>). Every operation on \<open>NaN\<close> gives \<open>NaN\<close>, and every
  comparison with \<open>NaN\<close> is false, as in C.
\<close>

datatype cfloat = NaN | Fin real

fun isnan :: "cfloat \<Rightarrow> bool" where
  "isnan NaN = True"
| "isnan (Fin x) = False"

fun fadd :: "cfloat \<Rightarrow> cfloat \<Rightarrow> cfloat" where
  "fadd (Fin x) (Fin y) = Fin (x + y)"
| "fadd _ _ = NaN"

fun fsub :: "cfloat \<Rightarrow> cfloat \<Rightarrow> cfloat" where
  "fsub (Fin x) (Fin y) = Fin (x - y)"
| "fsub _ _ = NaN"

fun fmul :: "cfloat \<Rightarrow> cfloat \<Rightarrow> cfloat" where
  "fmul (Fin x) (Fin y) = Fin (x * y)"
| "fmul _ _ = NaN"

fun fdiv :: "cfloat \<Rightarrow> cfloat \<Rightarrow> cfloat" where
  "fdiv (Fin x) (Fin y) = (if y = 0 then NaN else Fin (x / y))"
| "fdiv _ _ = NaN"

fun flog :: "cfloat \<Rightarrow> cfloat" where
  "flog (Fin x) = (if 0 < x then Fin (ln x) else NaN)"
| "flog NaN = NaN"

fun flt :: "cfloat \<Rightarrow> cfloat \<Rightarrow> bool" where
  "flt (Fin x) (Fin y) = (x < y)"
| "flt _ _ = False"

fun fle :: "cfloat \<Rightarrow> cfloat \<Rightarrow> bool" where
  "fle (Fin x) (Fin y) = (x \<le> y)"
| "fle _ _ = False"

definition float_of_int :: "int \<Rightarrow> cfloat" where
  "float_of_int i = Fin (of_int i)"

text \<open>
  The conversion \<^verbatim>\<open>(int)x\<close> truncates towards zero. C leaves the conversion of a
  not-a-number undefined: the value the target gives is the parameter \<open>nan_int\<close>.
\<close>

fun int_of_float :: "int \<Rightarrow> cfloat \<Rightarrow> int" where
  "int_of_float nan_int NaN = nan_int"
| "int_of_float nan_int (Fin x) = (if 0 \<le> x then \<lfloor>x\<rfloor> else \<lceil>x\<rceil>)"

text \<open>
  \<^verbatim>\<open>calcExpMovingAverage(smooth, &currAverage, newValue)\<close>; the function returns the
  new value of \<^verbatim>\<open>*currAverage\<close>.
\<close>

definition calcExpMovingAverage :: "cfloat \<Rightarrow> cfloat \<Rightarrow> cfloat \<Rightarrow> cfloat" where
  "calcExpMovingAverage smooth currAverage newValue =
     (if isnan currAverage then newValue
      else fadd currAverage (fmul smooth (fsub newValue currAverage)))"

subsection \<open>Constants of \<^verbatim>\<open>grillpid.h\<close>\<close>

text \<open>
  The header \<^verbatim>\<open>grillpid.h\<close> is not among the sources. Its macros are the fields of
  a record that every function using one of them takes as its first argument.
\<close>

record config =
  TEMP_OVERSAMPLE_BITS :: nat
  TEMP_MEASURE_PERIOD :: int
  LIDOPEN_MIN_AUTORESUME :: int
  TEMPPROBE_AVG_SMOOTH :: cfloat
  PIDOUTPUT_AVG_SMOOTH :: cfloat
  NAN_AS_INT :: int
  FAN_BOOST_ENABLED :: bool

subsection \<open>ProbeAlarm\<close>

datatype alarm_idx = ALARM_IDX_LOW | ALARM_IDX_HIGH

record ProbeAlarm =
  Thresholds :: "alarm_idx \<Rightarrow> int"
  Ringing :: "alarm_idx \<Rightarrow> bool"
  Armed :: "alarm_idx \<Rightarrow> bool"

definition getLow :: "ProbeAlarm \<Rightarrow> int" where
  "getLow a = Thresholds a ALARM_IDX_LOW"

definition getHigh :: "ProbeAlarm \<Rightarrow> int" where
  "getHigh a = Thresholds a ALARM_IDX_HIGH"

text \<open>
  Modelled from the spec: \<^verbatim>\<open>getLowEnabled\<close> and \<^verbatim>\<open>getHighEnabled\<close> are inline
  members of the header, which is missing. The spec: each threshold is either disabled
  or an integer degree value, and ``a threshold value of exactly zero means disabled''.
\<close>

definition getLowEnabled :: "ProbeAlarm \<Rightarrow> bool" where
  "getLowEnabled a = (Thresholds a ALARM_IDX_LOW \<noteq> 0)"

definition getHighEnabled :: "ProbeAlarm \<Rightarrow> bool" where
  "getHighEnabled a = (Thresholds a ALARM_IDX_HIGH \<noteq> 0)"

text \<open>
  \<^verbatim>\<open>ProbeAlarm::updateStatus(int value)\<close>. The first argument is what
  \<^verbatim>\<open>pid.isLidOpen()\<close> returns at the call (the member is defined in the header).
\<close>

definition updateStatus :: "bool \<Rightarrow> int \<Rightarrow> ProbeAlarm \<Rightarrow> ProbeAlarm" where
  "updateStatus lidOpen val a =
     (let a1 =
        (if getLowEnabled a then
           (if val \<ge> getLow a + 1 then a\<lparr>Armed := (Armed a)(ALARM_IDX_LOW := True)\<rparr>
            else if val < getLow a \<and> Armed a ALARM_IDX_LOW
              then a\<lparr>Ringing := (Ringing a)(ALARM_IDX_LOW := True)\<rparr>
            else a)
         else a);
          a2 =
        (if getHighEnabled a1 then
           (if val < getHigh a1 - 1 then a1\<lparr>Armed := (Armed a1)(ALARM_IDX_HIGH := True)\<rparr>
            else if val \<ge> getHigh a1 \<and> Armed a1 ALARM_IDX_HIGH
              then a1\<lparr>Ringing := (Ringing a1)(ALARM_IDX_HIGH := True)\<rparr>
            else a1)
         else a1)
      in if lidOpen
         then a2\<lparr>Ringing := (Ringing a2)(ALARM_IDX_HIGH := False, ALARM_IDX_LOW := False)\<rparr>
         else a2)"

text \<open>\<^verbatim>\<open>ProbeAlarm::setThreshold(unsigned char idx, int value)\<close>\<close>

definition setThreshold :: "alarm_idx \<Rightarrow> int \<Rightarrow> ProbeAlarm \<Rightarrow> ProbeAlarm" where
  "setThreshold idx val a =
     (let a1 = a\<lparr>Armed := (Armed a)(idx := False), Ringing := (Ringing a)(idx := False)\<rparr>
      in if val = 0 then a1
         else a1\<lparr>Thresholds := (Thresholds a1)(idx := val)\<rparr>)"

definition setHigh :: "int \<Rightarrow> ProbeAlarm \<Rightarrow> ProbeAlarm" where
  "setHigh val a = setThreshold ALARM_IDX_HIGH val a"

definition setLow :: "int \<Rightarrow> ProbeAlarm \<Rightarrow> ProbeAlarm" where
  "setLow val a = setThreshold ALARM_IDX_LOW val a"

text \<open>
  Modelled from the spec: \<^verbatim>\<open>silenceAll\<close> is an inline member of the missing header.
  The spec has it ``clear (silence) both alarm flags''; the source silences one side
  with \<^verbatim>\<open>setThreshold(idx, 0)\<close> (``0 just means silence'').
\<close>

definition silenceAll :: "ProbeAlarm \<Rightarrow> ProbeAlarm" where
  "silenceAll a = setThreshold ALARM_IDX_HIGH 0 (setThreshold ALARM_IDX_LOW 0 a)"

text \<open>An alarm object with no threshold set and no flag raised.\<close>

definition alarm0 :: ProbeAlarm where
  "alarm0 = \<lparr>Thresholds = (\<lambda>_. 0), Ringing = (\<lambda>_. False), Armed = (\<lambda>_. False)\<rparr>"

subsection \<open>TempProbe\<close>

datatype probe_type = PROBETYPE_INTERNAL | PROBETYPE_TC_ANALOG | PROBETYPE_OTHER

text \<open>
  The members of a probe. Their declarations are in the missing header:
  \<^verbatim>\<open>_accumulator\<close> is taken as an \<^verbatim>\<open>unsigned int\<close> (the type of the argument of
  \<^verbatim>\<open>addAdcValue\<close>) and \<^verbatim>\<open>_accumulatedCount\<close> as an \<^verbatim>\<open>unsigned char\<close>;
  \<^verbatim>\<open>Steinhart\<close> is an array of four \<^verbatim>\<open>float\<close>.
\<close>

record TempProbe =
  accumulator :: int
  accumulatedCount :: int
  probeType :: probe_type
  Steinhart :: "nat \<Rightarrow> cfloat"
  Offset :: int
  Temperature :: cfloat
  TemperatureAvg :: cfloat
  Alarms :: ProbeAlarm

text \<open>
  Modelled from the spec: \<^verbatim>\<open>hasTemperature\<close> is an inline member of the missing
  header. The spec: the current temperature is ``a floating value or invalid'', the
  invalid marker being not-a-number.
\<close>

definition hasTemperature :: "TempProbe \<Rightarrow> bool" where
  "hasTemperature p = (\<not> isnan (Temperature p))"

text \<open>\<^verbatim>\<open>TempProbe::setProbeType(unsigned char probeType)\<close>\<close>

definition setProbeType :: "probe_type \<Rightarrow> TempProbe \<Rightarrow> TempProbe" where
  "setProbeType pt p =
     p\<lparr>probeType := pt, accumulator := 0, accumulatedCount := 0,
       Temperature := NaN, TemperatureAvg := NaN\<rparr>"

text \<open>
  \<^verbatim>\<open>#define DIFFMAX(x,y,d) ((x - y + d) <= (d*2U))\<close>, on \<^verbatim>\<open>unsigned int\<close>.
\<close>

definition DIFFMAX :: "int \<Rightarrow> int \<Rightarrow> int \<Rightarrow> bool" where
  "DIFFMAX x y d = (u16 (x - y + d) \<le> u16 (d * 2))"

text \<open>\<^verbatim>\<open>TempProbe::addAdcValue(unsigned int analog_temp)\<close>\<close>

definition addAdcValue :: "config \<Rightarrow> int \<Rightarrow> TempProbe \<Rightarrow> TempProbe" where
  "addAdcValue cfg analog_temp p =
     (let p1 =
        (if analog_temp = 0 then p\<lparr>accumulator := 0\<rparr>
         else if accumulatedCount p = 0 then p\<lparr>accumulator := analog_temp\<rparr>
         else if \<not> DIFFMAX analog_temp (accumulator p div accumulatedCount p)
                    (2 ^ (6 + TEMP_OVERSAMPLE_BITS cfg))
           then p\<lparr>accumulator := 0\<rparr>
         else if accumulator p \<noteq> 0 then p\<lparr>accumulator := u16 (accumulator p + analog_temp)\<rparr>
         else p)
      in p1\<lparr>accumulatedCount := u8 (accumulatedCount p1 + 1)\<rparr>)"

definition OVERSAMPLE_COUNT :: "nat list" where
  "OVERSAMPLE_COUNT = [1, 4, 16, 64]"

text \<open>
  The loop of \<^verbatim>\<open>readTemp\<close>. \<open>analogRead k\<close> is what the \<open>k\<close>-th call of
  \<^verbatim>\<open>analogRead(_pin)\<close> returns; \<open>i\<close> is the loop counter, counting down; the result
  is \<open>None\<close> when the loop is left at a sample that is 0 or at least 1023.
\<close>

fun readTemp_loop :: "(nat \<Rightarrow> int) \<Rightarrow> nat \<Rightarrow> nat \<Rightarrow> int \<Rightarrow> int option" where
  "readTemp_loop analogRead k 0 oversampled_adc = Some oversampled_adc"
| "readTemp_loop analogRead k (Suc i) oversampled_adc =
     (let adc = u16 (analogRead k)
      in if adc = 0 \<or> adc \<ge> 1023 then None
         else readTemp_loop analogRead (Suc k) i (u16 (oversampled_adc + adc)))"

text \<open>\<^verbatim>\<open>TempProbe::readTemp()\<close>\<close>

definition readTemp :: "config \<Rightarrow> (nat \<Rightarrow> int) \<Rightarrow> TempProbe \<Rightarrow> TempProbe" where
  "readTemp cfg analogRead p =
     (case readTemp_loop analogRead 0 (OVERSAMPLE_COUNT ! TEMP_OVERSAMPLE_BITS cfg) 0 of
        None \<Rightarrow> addAdcValue cfg 0 p
      | Some oversampled_adc \<Rightarrow>
          addAdcValue cfg (oversampled_adc div 2 ^ TEMP_OVERSAMPLE_BITS cfg) p)"

text \<open>
  \<^verbatim>\<open>TempProbe::setTemperatureC(float T)\<close>; \<open>units\<close> is what \<^verbatim>\<open>pid.getUnits()\<close>
  returns.
\<close>

definition setTemperatureC :: "char \<Rightarrow> cfloat \<Rightarrow> TempProbe \<Rightarrow> TempProbe" where
  "setTemperatureC units T p =
     (if fle T (Fin (- 20)) \<or> flt (Fin 500) T then p\<lparr>Temperature := NaN\<rparr>
      else
        (let p1 = (if units = CHR ''F''
                   then p\<lparr>Temperature := fadd (fmul T (Fin (9 / 5))) (Fin 32)\<rparr>
                   else p\<lparr>Temperature := T\<rparr>)
         in p1\<lparr>Temperature := fadd (Temperature p1) (float_of_int (Offset p1))\<rparr>))"

text \<open>
  The statements of \<^verbatim>\<open>calcTemp\<close> after its conversion block (from
  \<^verbatim>\<open>if (hasTemperature())\<close> to the end of the function).
\<close>

definition calcTemp_tail :: "config \<Rightarrow> bool \<Rightarrow> TempProbe \<Rightarrow> TempProbe" where
  "calcTemp_tail cfg lidOpen p =
     (if hasTemperature p then
        p\<lparr>TemperatureAvg :=
             calcExpMovingAverage (TEMPPROBE_AVG_SMOOTH cfg) (TemperatureAvg p) (Temperature p),
          Alarms := updateStatus lidOpen (int_of_float (NAN_AS_INT cfg) (Temperature p)) (Alarms p)\<rparr>
      else p\<lparr>Alarms := silenceAll (Alarms p)\<rparr>)"

text \<open>
  \<^verbatim>\<open>TempProbe::calcTemp()\<close>. \<open>units\<close> is \<^verbatim>\<open>pid.getUnits()\<close>, \<open>isPit\<close> says
  whether \<^verbatim>\<open>this == pid.Probes[TEMP_PIT]\<close>, \<open>lidOpen\<close> is \<^verbatim>\<open>pid.isLidOpen()\<close>.
  A branch that ends in \<^verbatim>\<open>return\<close> gives the probe as it is there; every other
  branch goes on to \<open>calcTemp_tail\<close>.
\<close>

definition calcTemp :: "config \<Rightarrow> char \<Rightarrow> bool \<Rightarrow> bool \<Rightarrow> TempProbe \<Rightarrow> TempProbe" where
  "calcTemp cfg units isPit lidOpen p =
     (let ADCmax = float_of_int (2 ^ (10 + TEMP_OVERSAMPLE_BITS cfg) - 1)
      in if accumulatedCount p \<noteq> 0 then
        (let ADCval = accumulator p div accumulatedCount p;
             p1 = p\<lparr>accumulatedCount := 0\<rparr>
         in if units = CHR ''A'' then p1\<lparr>Temperature := float_of_int ADCval\<rparr>
            else if ADCval \<noteq> 0 then
              (if probeType p1 = PROBETYPE_TC_ANALOG then
                 (let mvScale = Steinhart p1 3;
                      mvScale1 = (if flt mvScale (Fin 100) then fdiv (Fin 3300) mvScale
                                  else mvScale)
                  in calcTemp_tail cfg lidOpen
                       (setTemperatureC units
                          (fmul (fdiv (float_of_int ADCval) ADCmax) mvScale1) p1))
               else
                 (let R = fdiv (Steinhart p1 3)
                                (fsub (fdiv ADCmax (float_of_int ADCval)) (Fin 1))
                  in if units = CHR ''R'' \<and> \<not> isPit then p1\<lparr>Temperature := R\<rparr>
                     else
                       (let R1 = flog R;
                            T = fdiv (Fin 1)
                                  (fadd (fmul (fadd (fmul (fmul (Steinhart p1 2) R1) R1)
                                                    (Steinhart p1 1)) R1)
                                        (Steinhart p1 0))
                        in calcTemp_tail cfg lidOpen
                             (setTemperatureC units (fsub T (Fin (27315 / 100))) p1))))
            else calcTemp_tail cfg lidOpen (p1\<lparr>Temperature := NaN\<rparr>))
      else calcTemp_tail cfg lidOpen p)"

subsection \<open>GrillPid\<close>

datatype pid_idx = PIDB | PIDP | PIDI | PIDD

datatype pidflag =
  PIDFLAG_INVERT_FAN | PIDFLAG_FAN_ONLY_MAX | PIDFLAG_INVERT_SERVO | PIDFLAG_SERVO_ANY_MAX

text \<open>\<^verbatim>\<open>bit_is_set(_outputFlags, flag)\<close>: the flag byte is the set of the flags that are set.\<close>

definition bit_is_set :: "pidflag set \<Rightarrow> pidflag \<Rightarrow> bool" where
  "bit_is_set flags b = (b \<in> flags)"

text \<open>The index of the pit probe in \<^verbatim>\<open>Probes\<close>: a constant of the header.\<close>

definition TEMP_PIT :: nat where
  "TEMP_PIT = 0"

text \<open>
  The members of the controller. \<open>blowerOutput\<close> is not a member: it records the duty
  cycle last handed to \<^verbatim>\<open>analogWrite(_fanPin, ...)\<close>. The servo output, compiled only
  with \<^verbatim>\<open>GRILLPID_SERVO_ENABLED\<close>, is left out.
\<close>

record GrillPid =
  Probes :: "nat \<Rightarrow> TempProbe"
  setPoint :: int
  Pid :: "pid_idx \<Rightarrow> cfloat"
  pidCurrent :: "pid_idx \<Rightarrow> cfloat"
  pidOutput :: int
  PidOutputAvg :: cfloat
  manualOutputMode :: bool
  pitTemperatureReached :: bool
  LidOpenResumeCountdown :: int
  lidOpenDuration :: int
  LidOpenOffset :: int
  outputFlags :: "pidflag set"
  minFanSpeed :: int
  maxFanSpeed :: int
  longPwmTmr :: int
  blowerOutput :: int
  lastBlowerOutput :: int
  fanBoostActive :: bool

text \<open>
  \<^verbatim>\<open>GrillPid::calcPidOutput()\<close>; \<open>lidOpen\<close> is what \<^verbatim>\<open>isLidOpen()\<close> returns.
\<close>

definition calcPidOutput :: "config \<Rightarrow> bool \<Rightarrow> GrillPid \<Rightarrow> GrillPid" where
  "calcPidOutput cfg lidOpen s =
     (let lastOutput = pidOutput s;
          s0 = s\<lparr>pidOutput := 0\<rparr>
      in if \<not> hasTemperature (Probes s0 TEMP_PIT) then s0
         else if lidOpen then s0
         else
           (let currentTemp = Temperature (Probes s0 TEMP_PIT);
                error = fsub (float_of_int (setPoint s0)) currentTemp;
                s1 = s0\<lparr>pidCurrent := (pidCurrent s0)(PIDP := fmul (Pid s0 PIDP) error)\<rparr>;
                s2 = (if (flt (Fin 0) error \<and> lastOutput < 100)
                         \<or> (flt error (Fin 0) \<and> lastOutput > 0)
                      then s1\<lparr>pidCurrent := (pidCurrent s1)
                                 (PIDI := fadd (pidCurrent s1 PIDI) (fmul (Pid s1 PIDI) error))\<rparr>
                      else s1);
                s3 = s2\<lparr>pidCurrent := (pidCurrent s2)
                           (PIDD := fmul (Pid s2 PIDD)
                              (fsub (TemperatureAvg (Probes s2 TEMP_PIT)) currentTemp))\<rparr>;
                s4 = s3\<lparr>pidCurrent := (pidCurrent s3)(PIDB := Pid s3 PIDB)\<rparr>;
                control = int_of_float (NAN_AS_INT cfg)
                            (fadd (fadd (fadd (pidCurrent s4 PIDB) (pidCurrent s4 PIDP))
                                        (pidCurrent s4 PIDI))
                                  (pidCurrent s4 PIDD))
            in s4\<lparr>pidOutput := u8 (constrain control 0 100)\<rparr>))"

text \<open>\<^verbatim>\<open>GrillPid::getFanSpeed()\<close>\<close>

definition getFanSpeed :: "GrillPid \<Rightarrow> int" where
  "getFanSpeed s =
     (if bit_is_set (outputFlags s) PIDFLAG_FAN_ONLY_MAX \<and> pidOutput s < 100 then 0
      else u8 (u16 (u16 (pidOutput s) * maxFanSpeed s) div 100))"

text \<open>
  \<^verbatim>\<open>GrillPid::commitFanOutput()\<close>. The block under
  \<^verbatim>\<open>GRILLPID_FAN_BOOST_ENABLED\<close> is there when \<open>FAN_BOOST_ENABLED cfg\<close> holds; its
  \<^verbatim>\<open>digitalWrite(_fanPin, HIGH)\<close> shows in \<open>fanBoostActive\<close>.
\<close>

definition commitFanOutput :: "config \<Rightarrow> GrillPid \<Rightarrow> GrillPid" where
  "commitFanOutput cfg s =
     (let LONG_PWM_PERIOD = 10000;
          PERIOD_SCALE = LONG_PWM_PERIOD div u16 (TEMP_MEASURE_PERIOD cfg);
          fanSpeed = getFanSpeed s;
          (fanSpeed1, s1) =
            (if fanSpeed \<ge> minFanSpeed s then (fanSpeed, s\<lparr>longPwmTmr := 0\<rparr>)
             else
               (let fanSpeed' =
                      (if u16 (PERIOD_SCALE * fanSpeed) div minFanSpeed s > longPwmTmr s
                       then minFanSpeed s else 0);
                    s' = s\<lparr>longPwmTmr := u8 (longPwmTmr s + 1)\<rparr>
                in (fanSpeed',
                    if longPwmTmr s' > u16 (PERIOD_SCALE - 1) then s'\<lparr>longPwmTmr := 0\<rparr>
                    else s')));
          fanSpeed2 =
            (if bit_is_set (outputFlags s1) PIDFLAG_INVERT_FAN
             then u8 (maxFanSpeed s1 - fanSpeed1) else fanSpeed1);
          newBlowerOutput = u8 (mappct fanSpeed2 0 255);
          s2 = s1\<lparr>blowerOutput := newBlowerOutput\<rparr>
      in if FAN_BOOST_ENABLED cfg then
           (let s3 = (if lastBlowerOutput s2 = 0 \<and> newBlowerOutput \<noteq> 0
                      then s2\<lparr>fanBoostActive := True\<rparr> else s2)
            in s3\<lparr>lastBlowerOutput := newBlowerOutput\<rparr>)
         else s2)"

text \<open>\<^verbatim>\<open>GrillPid::commitPidOutput()\<close>, without the servo.\<close>

definition commitPidOutput :: "config \<Rightarrow> GrillPid \<Rightarrow> GrillPid" where
  "commitPidOutput cfg s =
     commitFanOutput cfg
       (s\<lparr>PidOutputAvg :=
            calcExpMovingAverage (PIDOUTPUT_AVG_SMOOTH cfg) (PidOutputAvg s)
              (float_of_int (pidOutput s))\<rparr>)"

text \<open>\<^verbatim>\<open>GrillPid::resetLidOpenResumeCountdown()\<close>\<close>

definition resetLidOpenResumeCountdown :: "GrillPid \<Rightarrow> GrillPid" where
  "resetLidOpenResumeCountdown s =
     s\<lparr>LidOpenResumeCountdown := lidOpenDuration s, pitTemperatureReached := False\<rparr>"


text \<open>\<^verbatim>\<open>GrillPid::setPidOutput(int value)\<close>\<close>

definition setPidOutput :: "int \<Rightarrow> GrillPid \<Rightarrow> GrillPid" where
  "setPidOutput val s =
     s\<lparr>manualOutputMode := True, pidOutput := u8 (constrain val 0 100),
       LidOpenResumeCountdown := 0\<rparr>"


text \<open>\<^verbatim>\<open>GrillPid::setPidConstant(unsigned char idx, float value)\<close>\<close>

definition setPidConstant :: "pid_idx \<Rightarrow> cfloat \<Rightarrow> GrillPid \<Rightarrow> GrillPid" where
  "setPidConstant idx val s =
     (let s1 = s\<lparr>Pid := (Pid s)(idx := val)\<rparr>
      in if idx = PIDI then s1\<lparr>pidCurrent := (pidCurrent s1)(PIDI := Fin 0)\<rparr> else s1)"

text \<open>
  The control block of \<^verbatim>\<open>GrillPid::doWork()\<close>, run once in every measure period
  between the \<^verbatim>\<open>calcTemp\<close> of the probes and \<^verbatim>\<open>commitPidOutput\<close>: the statement
  \<^verbatim>\<open>if (!_manualOutputMode) { ... }\<close>. The countdown is an \<^verbatim>\<open>unsigned int\<close>; the
  percentage \<^verbatim>\<open>(_setPoint-pitTemp)*100/_setPoint\<close> is 16-bit \<^verbatim>\<open>int\<close> arithmetic.
\<close>

definition doWork_control :: "config \<Rightarrow> bool \<Rightarrow> GrillPid \<Rightarrow> GrillPid" where
  "doWork_control cfg lidOpen s =
     (if \<not> manualOutputMode s then
        (let s1 = calcPidOutput cfg lidOpen s;
             pitTemp = int_of_float (NAN_AS_INT cfg) (Temperature (Probes s1 TEMP_PIT))
         in if pitTemp \<ge> setPoint s1
               \<and> u16 (lidOpenDuration s1 - LidOpenResumeCountdown s1)
                   > LIDOPEN_MIN_AUTORESUME cfg
            then
              (let s2 = (if \<not> pitTemperatureReached s1
                         then s1\<lparr>pitTemperatureReached := True,
                                 pidCurrent := (pidCurrent s1)
                                   (PIDI := fmul (pidCurrent s1 PIDI) (Fin (25 / 100)))\<rparr>
                         else s1)
               in s2\<lparr>LidOpenResumeCountdown := 0\<rparr>)
            else if LidOpenResumeCountdown s1 \<noteq> 0 then
              s1\<lparr>LidOpenResumeCountdown :=
                    u16 (LidOpenResumeCountdown s1 - c_div (TEMP_MEASURE_PERIOD cfg) 1000)\<rparr>
            else if pitTemperatureReached s1
                    \<and> s16 (c_div (s16 (s16 (setPoint s1 - pitTemp) * 100)) (setPoint s1))
                          \<ge> LidOpenOffset s1
                    \<and> int_of_float (NAN_AS_INT cfg) (PidOutputAvg s1) < 90
              then resetLidOpenResumeCountdown s1
            else s1)
      else s)"

subsection \<open>Notions of the specification\<close>

text \<open>
  The definitions of this part are not translations of a function: each names a
  condition or a rule in the words of the specification, to be compared with the code.
\<close>

text \<open>The local variable \<^verbatim>\<open>error\<close> of \<^verbatim>\<open>calcPidOutput\<close>: setpoint minus pit temperature.\<close>

definition pid_error :: "GrillPid \<Rightarrow> cfloat" where
  "pid_error s = fsub (float_of_int (setPoint s)) (Temperature (Probes s TEMP_PIT))"

text \<open>
  A run of PID evaluations: before each one the pit probe takes the state its
  \<^verbatim>\<open>calcTemp\<close> left, and \<^verbatim>\<open>isLidOpen()\<close> the given value.
\<close>

fun calcPidOutput_run :: "config \<Rightarrow> (bool \<times> TempProbe) list \<Rightarrow> GrillPid \<Rightarrow> GrillPid" where
  "calcPidOutput_run cfg [] s = s"
| "calcPidOutput_run cfg ((lidOpen, pit) # es) s =
     calcPidOutput_run cfg es
       (calcPidOutput cfg lidOpen (s\<lparr>Probes := (Probes s)(TEMP_PIT := pit)\<rparr>))"

text \<open>
  In such a run the error stays positive and the previous output is pinned at 100 when
  both hold at the start of every evaluation.
\<close>

fun pinned_at_100 :: "config \<Rightarrow> (bool \<times> TempProbe) list \<Rightarrow> GrillPid \<Rightarrow> bool" where
  "pinned_at_100 cfg [] s = True"
| "pinned_at_100 cfg ((lidOpen, pit) # es) s =
     (let s1 = s\<lparr>Probes := (Probes s)(TEMP_PIT := pit)\<rparr>
      in pidOutput s = 100 \<and> flt (Fin 0) (pid_error s1)
         \<and> pinned_at_100 cfg es (calcPidOutput cfg lidOpen s1))"

text \<open>
  The raw samples of a sub-period: what the calls of \<^verbatim>\<open>analogRead\<close> return, as many
  as one \<^verbatim>\<open>readTemp\<close> takes when it rejects none.
\<close>

definition raw_samples :: "config \<Rightarrow> (nat \<Rightarrow> int) \<Rightarrow> int list" where
  "raw_samples cfg analogRead =
     map (\<lambda>k. u16 (analogRead k)) [0..<OVERSAMPLE_COUNT ! TEMP_OVERSAMPLE_BITS cfg]"

definition railed :: "int \<Rightarrow> bool" where
  "railed adc = (adc = 0 \<or> adc \<ge> 1023)"

text \<open>
  The accumulation rule of a sub-period in the words of the specification: a railed
  sample discards the batch; the first value of a period is stored; a value more than
  6.25 percent of the full scale off the running mean resets the accumulator; and the
  value is added in every other case. The count goes up in all cases.
\<close>

definition subperiod_as_claimed :: "config \<Rightarrow> (nat \<Rightarrow> int) \<Rightarrow> TempProbe \<Rightarrow> TempProbe" where
  "subperiod_as_claimed cfg analogRead p =
     (let samples = raw_samples cfg analogRead;
          v = sum_list samples div 2 ^ TEMP_OVERSAMPLE_BITS cfg
      in p\<lparr>accumulator :=
             (if list_ex railed samples then 0
              else if accumulatedCount p = 0 then v
              else if \<bar>v - accumulator p div accumulatedCount p\<bar>
                        > 2 ^ (6 + TEMP_OVERSAMPLE_BITS cfg) then 0
              else u16 (accumulator p + v)),
           accumulatedCount := u8 (accumulatedCount p + 1)\<rparr>)"

text \<open>
  The same rule with the one case more that the code has: an accumulator that is 0
  (the period has been invalidated) stays 0.
\<close>

definition subperiod_rule :: "config \<Rightarrow> (nat \<Rightarrow> int) \<Rightarrow> TempProbe \<Rightarrow> TempProbe" where
  "subperiod_rule cfg analogRead p =
     (let samples = raw_samples cfg analogRead;
          v = sum_list samples div 2 ^ TEMP_OVERSAMPLE_BITS cfg
      in p\<lparr>accumulator :=
             (if list_ex railed samples then 0
              else if accumulatedCount p = 0 then v
              else if \<bar>v - accumulator p div accumulatedCount p\<bar>
                        > 2 ^ (6 + TEMP_OVERSAMPLE_BITS cfg) then 0
              else if accumulator p = 0 then 0
              else u16 (accumulator p + v)),
           accumulatedCount := u8 (accumulatedCount p + 1)\<rparr>)"

text \<open>
  What sampling keeps true of a probe: accumulator and count are in the range of their
  types, and a single accumulated value is an oversampled value, at most 1022 * 8.
\<close>

definition sampling_inv :: "TempProbe \<Rightarrow> bool" where
  "sampling_inv p =
     (0 \<le> accumulator p \<and> accumulator p < 65536
      \<and> 0 \<le> accumulatedCount p \<and> accumulatedCount p < 256
      \<and> (accumulatedCount p \<noteq> 1 \<or> accumulator p \<le> 8176))"



text \<open>The local variable \<^verbatim>\<open>pitTemp\<close> of \<^verbatim>\<open>doWork\<close>.\<close>

definition pitTemp :: "config \<Rightarrow> GrillPid \<Rightarrow> int" where
  "pitTemp cfg s = int_of_float (NAN_AS_INT cfg) (Temperature (Probes s TEMP_PIT))"

text \<open>
  The conditions of a lid-open event: the temperature has been reached, no countdown
  runs, the pit temperature is \<^verbatim>\<open>LidOpenOffset\<close> percent or more below the setpoint
  and the average output is below 90.
\<close>

definition lid_open_detected :: "config \<Rightarrow> GrillPid \<Rightarrow> bool" where
  "lid_open_detected cfg s =
     (pitTemperatureReached s \<and> LidOpenResumeCountdown s = 0
      \<and> c_div ((setPoint s - pitTemp cfg s) * 100) (setPoint s) \<ge> LidOpenOffset s
      \<and> int_of_float (NAN_AS_INT cfg) (PidOutputAvg s) < 90)"

text \<open>
  The condition of the last branch of the control block of \<^verbatim>\<open>doWork\<close>, with the
  percentage as the 16-bit target computes it.
\<close>

definition lid_open_branch :: "config \<Rightarrow> GrillPid \<Rightarrow> bool" where
  "lid_open_branch cfg s =
     (pitTemperatureReached s
      \<and> s16 (c_div (s16 (s16 (setPoint s - pitTemp cfg s) * 100)) (setPoint s))
            \<ge> LidOpenOffset s
      \<and> int_of_float (NAN_AS_INT cfg) (PidOutputAvg s) < 90)"

text \<open>
  The setpoint, the pit temperature as an integer and the product
  \<^verbatim>\<open>(_setPoint-pitTemp)*100\<close> stay within the 16 bits of an \<^verbatim>\<open>int\<close>: setpoint and
  pit temperature are at most 327 degrees apart.
\<close>

definition percent_in_range :: "config \<Rightarrow> GrillPid \<Rightarrow> bool" where
  "percent_in_range cfg s =
     (\<bar>setPoint s\<bar> \<le> 32767 \<and> \<bar>pitTemp cfg s\<bar> \<le> 32767
      \<and> \<bar>(setPoint s - pitTemp cfg s) * 100\<bar> \<le> 32767)"

text \<open>The condition of the first branch of the control block of \<^verbatim>\<open>doWork\<close>.\<close>

definition temperature_reached_branch :: "config \<Rightarrow> GrillPid \<Rightarrow> bool" where
  "temperature_reached_branch cfg s =
     (pitTemp cfg s \<ge> setPoint s
      \<and> u16 (lidOpenDuration s - LidOpenResumeCountdown s) > LIDOPEN_MIN_AUTORESUME cfg)"

text \<open>The requested fan speed: the output percentage scaled to the maximum fan speed.\<close>

definition requested_fan_speed :: "GrillPid \<Rightarrow> int" where
  "requested_fan_speed s = pidOutput s * maxFanSpeed s div 100"

text \<open>The number of slots of the long pulse: \<^verbatim>\<open>PERIOD_SCALE\<close> of \<^verbatim>\<open>commitFanOutput\<close>.\<close>

definition long_pwm_slots :: "config \<Rightarrow> int" where
  "long_pwm_slots cfg = 10000 div TEMP_MEASURE_PERIOD cfg"

text \<open>A sequence of alarm evaluations, each with its lid state and its value.\<close>

fun updateStatus_run :: "(bool \<times> int) list \<Rightarrow> ProbeAlarm \<Rightarrow> ProbeAlarm" where
  "updateStatus_run [] a = a"
| "updateStatus_run ((lidOpen, val) # es) a = updateStatus_run es (updateStatus lidOpen val a)"

subsection \<open>Example states\<close>

definition cfg_ex :: config where
  "cfg_ex = \<lparr>TEMP_OVERSAMPLE_BITS = 1, TEMP_MEASURE_PERIOD = 1000, LIDOPEN_MIN_AUTORESUME = 30,
     TEMPPROBE_AVG_SMOOTH = Fin (1 / 20), PIDOUTPUT_AVG_SMOOTH = Fin (1 / 240),
     NAN_AS_INT = 0, FAN_BOOST_ENABLED = True\<rparr>"

definition alarm_ex :: ProbeAlarm where
  "alarm_ex = \<lparr>Thresholds = (\<lambda>i. if i = ALARM_IDX_LOW then 100 else 200),
     Ringing = (\<lambda>_. False), Armed = (\<lambda>_. True)\<rparr>"

definition probe_at :: "cfloat \<Rightarrow> cfloat \<Rightarrow> TempProbe" where
  "probe_at t avg = \<lparr>accumulator = 0, accumulatedCount = 0, probeType = PROBETYPE_INTERNAL,
     Steinhart = (\<lambda>_. Fin 0), Offset = 0, Temperature = t, TemperatureAvg = avg,
     Alarms = alarm0\<rparr>"

definition grill_ex :: GrillPid where
  "grill_ex = \<lparr>Probes = (\<lambda>_. probe_at (Fin 100) (Fin 100)), setPoint = 225,
     Pid = (\<lambda>i. case i of PIDB \<Rightarrow> Fin 0 | PIDP \<Rightarrow> Fin 4 | PIDI \<Rightarrow> Fin (2 / 100)
                 | PIDD \<Rightarrow> Fin 5),
     pidCurrent = (\<lambda>_. Fin 0), pidOutput = 100, PidOutputAvg = Fin 50,
     manualOutputMode = False, pitTemperatureReached = False, LidOpenResumeCountdown = 0,
     lidOpenDuration = 240, LidOpenOffset = 6, outputFlags = {}, minFanSpeed = 25,
     maxFanSpeed = 100, longPwmTmr = 0, blowerOutput = 0, lastBlowerOutput = 0,
     fanBoostActive = False\<rparr>"

text \<open>A probe in the middle of a period, one value of 500 accumulated.\<close>

definition probe_ex :: TempProbe where
  "probe_ex = (probe_at NaN NaN)\<lparr>accumulator := 500, accumulatedCount := 1\<rparr>"

text \<open>
  States of the controller: one that has reached its setpoint of 225 and then fallen
  to 200; one just after \<^verbatim>\<open>setSetPoint(225)\<close> with the pit at 230, once with the
  lid-open duration of 240 and once with a duration set to 10 (which
  \<^verbatim>\<open>setLidOpenDuration\<close> raises to \<^verbatim>\<open>LIDOPEN_MIN_AUTORESUME\<close>); one that has
  reached a setpoint of 400 and fallen to 70; and one with the fan inverted, in the
  last slot of a long pulse.
\<close>

definition lid_ex :: GrillPid where
  "lid_ex = grill_ex\<lparr>Probes := (\<lambda>_. probe_at (Fin 200) (Fin 210)), pitTemperatureReached := True\<rparr>"



definition far_below_ex :: GrillPid where
  "far_below_ex = lid_ex\<lparr>setPoint := 400, Probes := (\<lambda>_. probe_at (Fin 70) (Fin 70))\<rparr>"

definition inverted_ex :: GrillPid where
  "inverted_ex = grill_ex\<lparr>pidOutput := 10, longPwmTmr := 9, outputFlags := {PIDFLAG_INVERT_FAN}\<rparr>"




section \<open>Properties\<close>

subsection \<open>Auxiliary facts\<close>

lemmas alarm_defs = updateStatus_def getLowEnabled_def getHighEnabled_def getLow_def getHigh_def

lemmas ex_defs = cfg_ex_def probe_at_def grill_ex_def alarm0_def TEMP_PIT_def
  hasTemperature_def pid_error_def float_of_int_def u8_def u16_def constrain_def

lemma flt_asym: "flt a b \<Longrightarrow> \<not> flt b a"
  by (cases a; cases b) auto

lemma calcPidOutput_PIDI:
  "hasTemperature (Probes s TEMP_PIT) \<Longrightarrow> \<not> lid \<Longrightarrow>
   pidCurrent (calcPidOutput cfg lid s) PIDI =
     (if (flt (Fin 0) (pid_error s) \<and> pidOutput s < 100)
         \<or> (flt (pid_error s) (Fin 0) \<and> 0 < pidOutput s)
      then fadd (pidCurrent s PIDI) (fmul (Pid s PIDI) (pid_error s))
      else pidCurrent s PIDI)"
  by (simp add: calcPidOutput_def pid_error_def Let_def)

lemma calcPidOutput_bail:
  "\<not> hasTemperature (Probes s TEMP_PIT) \<or> lid \<Longrightarrow> calcPidOutput cfg lid s = s\<lparr>pidOutput := 0\<rparr>"
  by (auto simp add: calcPidOutput_def Let_def)

lemma calcPidOutput_PIDI_frozen:
  assumes "pidOutput s = 100" "flt (Fin 0) (pid_error s)"
  shows "pidCurrent (calcPidOutput cfg lid s) PIDI = pidCurrent s PIDI"
proof (cases "hasTemperature (Probes s TEMP_PIT) \<and> \<not> lid")
  case True
  then show ?thesis using assms flt_asym [OF assms(2)] by (simp add: calcPidOutput_PIDI)
next
  case False
  then show ?thesis by (simp add: calcPidOutput_bail)
qed

lemma pinned_run_PIDI:
  "pinned_at_100 cfg es s \<Longrightarrow> pidCurrent (calcPidOutput_run cfg es s) PIDI = pidCurrent s PIDI"
proof (induction es arbitrary: s)
  case Nil
  then show ?case by simp
next
  case (Cons e es)
  obtain lid pit where e: "e = (lid, pit)" by (cases e)
  let ?s1 = "s\<lparr>Probes := (Probes s)(TEMP_PIT := pit)\<rparr>"
  from Cons.prems e have out: "pidOutput ?s1 = 100" and err: "flt (Fin 0) (pid_error ?s1)"
    and rest: "pinned_at_100 cfg es (calcPidOutput cfg lid ?s1)"
    by (simp_all add: Let_def)
  have "pidCurrent (calcPidOutput_run cfg (e # es) s) PIDI
          = pidCurrent (calcPidOutput cfg lid ?s1) PIDI"
    using Cons.IH [OF rest] e by simp
  also have "\<dots> = pidCurrent ?s1 PIDI"
    by (rule calcPidOutput_PIDI_frozen [OF out err])
  finally show ?case by simp
qed

lemma constrain_range: "lo \<le> hi \<Longrightarrow> lo \<le> constrain x lo hi \<and> constrain x lo hi \<le> hi"
  by (simp add: constrain_def)

lemma u8_constrain: "u8 (constrain x 0 100) = constrain x 0 100"
  using constrain_range [of 0 100 x] by (simp add: u8_def)

lemma readTemp_loop_eq:
  "u16 acc = acc \<Longrightarrow>
   readTemp_loop rd k i acc =
     (if list_ex railed (map (\<lambda>j. u16 (rd j)) [k..<k + i]) then None
      else Some (u16 (acc + sum_list (map (\<lambda>j. u16 (rd j)) [k..<k + i]))))"
proof (induction i arbitrary: k acc)
  case 0
  then show ?case by simp
next
  case (Suc i)
  have upt: "[k..<k + Suc i] = k # [Suc k..<Suc k + i]"
    by (simp add: upt_conv_Cons)
  have idem: "u16 (u16 (acc + u16 (rd k))) = u16 (acc + u16 (rd k))"
    by (simp add: u16_def)
  have assoc: "u16 (u16 (acc + u16 (rd k)) + x) = u16 (acc + (u16 (rd k) + x))" for x
    by (simp add: u16_def mod_add_left_eq add.assoc)
  show ?case
    unfolding upt using Suc.IH [OF idem, of "Suc k"]
    by (simp add: Let_def railed_def assoc)
qed

lemma sum_list_bounds:
  "\<not> list_ex railed xs \<Longrightarrow> list_all (\<lambda>x. 0 \<le> x) xs \<Longrightarrow>
   int (length xs) \<le> sum_list xs \<and> sum_list xs \<le> 1022 * int (length xs)"
proof (induction xs)
  case Nil
  then show ?case by simp
next
  case (Cons x xs)
  from Cons.prems have x: "1 \<le> x" "x \<le> 1022"
    by (simp_all add: railed_def)
  from Cons.prems have "\<not> list_ex railed xs" "list_all (\<lambda>x. 0 \<le> x) xs"
    by simp_all
  from Cons.IH [OF this] x show ?case
    by simp
qed

lemma raw_samples_nonneg: "list_all (\<lambda>x. 0 \<le> x) (raw_samples cfg rd)"
  by (simp add: raw_samples_def list_all_iff u16_def)

lemma oversample_count:
  "TEMP_OVERSAMPLE_BITS cfg \<le> 3 \<Longrightarrow>
   OVERSAMPLE_COUNT ! TEMP_OVERSAMPLE_BITS cfg = 4 ^ TEMP_OVERSAMPLE_BITS cfg"
proof -
  assume "TEMP_OVERSAMPLE_BITS cfg \<le> 3"
  then consider "TEMP_OVERSAMPLE_BITS cfg = 0" | "TEMP_OVERSAMPLE_BITS cfg = 1"
    | "TEMP_OVERSAMPLE_BITS cfg = 2" | "TEMP_OVERSAMPLE_BITS cfg = 3"
    by linarith
  then show ?thesis
    by cases (simp_all add: OVERSAMPLE_COUNT_def)
qed

lemma oversampled_value:
  assumes bits: "TEMP_OVERSAMPLE_BITS cfg \<le> 3"
    and ok: "\<not> list_ex railed (raw_samples cfg rd)"
  shows "u16 (sum_list (raw_samples cfg rd)) = sum_list (raw_samples cfg rd)"
    and "0 < sum_list (raw_samples cfg rd) div 2 ^ TEMP_OVERSAMPLE_BITS cfg"
    and "sum_list (raw_samples cfg rd) div 2 ^ TEMP_OVERSAMPLE_BITS cfg
           \<le> 1022 * 2 ^ TEMP_OVERSAMPLE_BITS cfg"
proof -
  let ?b = "TEMP_OVERSAMPLE_BITS cfg"
  let ?S = "sum_list (raw_samples cfg rd)"
  have len: "length (raw_samples cfg rd) = 4 ^ ?b"
    by (simp add: raw_samples_def oversample_count [OF bits])
  have b: "int (4 ^ ?b) \<le> ?S" "?S \<le> 1022 * int (4 ^ ?b)"
    using sum_list_bounds [OF ok raw_samples_nonneg] len by simp_all
  from bits consider "?b = 0" | "?b = 1" | "?b = 2" | "?b = 3" by linarith
  then have "(0 \<le> ?S \<and> ?S < 65536) \<and> 0 < ?S div 2 ^ ?b \<and> ?S div 2 ^ ?b \<le> 1022 * 2 ^ ?b"
  proof cases
    case 1
    with b show ?thesis by simp
  next
    case 2
    with b have "4 \<le> ?S" "?S \<le> 4088" by simp_all
    then have "(0 \<le> ?S \<and> ?S < 65536) \<and> 0 < ?S div 2 \<and> ?S div 2 \<le> 2044" by linarith
    with 2 show ?thesis by simp
  next
    case 3
    with b have "16 \<le> ?S" "?S \<le> 16352" by simp_all
    then have "(0 \<le> ?S \<and> ?S < 65536) \<and> 0 < ?S div 4 \<and> ?S div 4 \<le> 4088" by linarith
    with 3 show ?thesis by simp
  next
    case 4
    with b have "64 \<le> ?S" "?S \<le> 65408" by simp_all
    then have "(0 \<le> ?S \<and> ?S < 65536) \<and> 0 < ?S div 8 \<and> ?S div 8 \<le> 8176" by linarith
    with 4 show ?thesis by simp
  qed
  then show "u16 ?S = ?S" "0 < ?S div 2 ^ ?b" "?S div 2 ^ ?b \<le> 1022 * 2 ^ ?b"
    by (simp_all add: u16_def)
qed

lemma DIFFMAX_abs:
  assumes "0 \<le> x" "0 \<le> y" "0 \<le> d" "d \<le> 512" "x < 65024" "y < 65024"
  shows "DIFFMAX x y d = (\<bar>x - y\<bar> \<le> d)"
proof (cases "0 \<le> x - y + d")
  case True
  with assms have "(x - y + d) mod 65536 = x - y + d" "(d * 2) mod 65536 = d * 2"
    by simp_all
  with True show ?thesis by (auto simp: DIFFMAX_def u16_def)
next
  case False
  have "(x - y + d + 65536) mod 65536 = x - y + d + 65536"
    by (rule mod_pos_pos_trivial) (use assms False in linarith)+
  then have "(x - y + d) mod 65536 = x - y + d + 65536"
    by simp
  moreover from assms have "(d * 2) mod 65536 = d * 2" by simp
  ultimately show ?thesis using False assms by (simp add: DIFFMAX_def u16_def)
qed


lemma readTemp_loop_samples:
  "readTemp_loop rd 0 (OVERSAMPLE_COUNT ! TEMP_OVERSAMPLE_BITS cfg) 0 =
     (if list_ex railed (raw_samples cfg rd) then None
      else Some (u16 (sum_list (raw_samples cfg rd))))"
  using readTemp_loop_eq [of 0 rd 0 "OVERSAMPLE_COUNT ! TEMP_OVERSAMPLE_BITS cfg"]
  by (simp add: raw_samples_def u16_def)

lemma readTemp_subperiod_rule:
  assumes bits: "TEMP_OVERSAMPLE_BITS cfg \<le> 3"
    and acc: "0 \<le> accumulator p" and cnt: "0 \<le> accumulatedCount p"
    and mean: "accumulator p div accumulatedCount p < 65024"
  shows "readTemp cfg rd p = subperiod_rule cfg rd p"
proof (cases "list_ex railed (raw_samples cfg rd)")
  case True
  then show ?thesis
    by (simp add: readTemp_def readTemp_loop_samples subperiod_rule_def addAdcValue_def Let_def)
next
  case False
  let ?b = "TEMP_OVERSAMPLE_BITS cfg"
  let ?v = "sum_list (raw_samples cfg rd) div 2 ^ ?b"
  note v = oversampled_value [OF bits False]
  have d: "(0::int) \<le> 2 ^ (6 + ?b)" "(2::int) ^ (6 + ?b) \<le> 512"
    using bits power_increasing [of "6 + ?b" 9 "2::int"] by simp_all
  have "(2::int) ^ ?b \<le> 2 ^ 3"
    using bits by (intro power_increasing) simp_all
  with v(3) have vb: "?v < 65024" by simp
  have m: "0 \<le> accumulator p div accumulatedCount p"
    using acc cnt by (simp add: pos_imp_zdiv_nonneg_iff div_int_pos_iff)
  have diff: "DIFFMAX ?v (accumulator p div accumulatedCount p) (2 ^ (6 + ?b))
      = (\<bar>?v - accumulator p div accumulatedCount p\<bar> \<le> 2 ^ (6 + ?b))"
    using v(2) vb m mean d by (intro DIFFMAX_abs) simp_all
  have rd: "readTemp cfg rd p = addAdcValue cfg ?v p"
    using False by (simp add: readTemp_def readTemp_loop_samples v(1))
  show ?thesis
    unfolding rd using False v(2) diff
    by (auto simp add: subperiod_rule_def addAdcValue_def Let_def not_le)
qed

lemma sampling_inv_mean:
  assumes "sampling_inv p"
  shows "0 \<le> accumulator p" "0 \<le> accumulatedCount p"
    "accumulator p div accumulatedCount p < 65024"
proof -
  from assms show a: "0 \<le> accumulator p" and c: "0 \<le> accumulatedCount p"
    by (simp_all add: sampling_inv_def)
  consider "accumulatedCount p = 0" | "accumulatedCount p = 1" | "2 \<le> accumulatedCount p"
    using c by linarith
  then show "accumulator p div accumulatedCount p < 65024"
  proof cases
    case 1
    then show ?thesis by simp
  next
    case 2
    with assms show ?thesis by (simp add: sampling_inv_def)
  next
    case 3
    have "accumulator p div accumulatedCount p \<le> accumulator p div 2"
      using a 3 by (intro zdiv_mono2) simp_all
    moreover from assms have "accumulator p < 65536" by (simp add: sampling_inv_def)
    ultimately show ?thesis by linarith
  qed
qed

lemma readTemp_sampling_inv:
  assumes bits: "TEMP_OVERSAMPLE_BITS cfg \<le> 3" and inv: "sampling_inv p"
  shows "sampling_inv (readTemp cfg rd p)"
proof -
  note m = sampling_inv_mean [OF inv]
  have r: "readTemp cfg rd p = subperiod_rule cfg rd p"
    by (rule readTemp_subperiod_rule [OF bits m])
  have u8: "0 \<le> u8 x" "u8 x < 256" for x
    by (simp_all add: u8_def)
  have u16: "0 \<le> u16 x" "u16 x < 65536" for x
    by (simp_all add: u16_def)
  have one: "accumulatedCount p = 0" if "u8 (accumulatedCount p + 1) = 1"
  proof (cases "accumulatedCount p < 255")
    case True
    with inv have "(accumulatedCount p + 1) mod 256 = accumulatedCount p + 1"
      by (simp add: sampling_inv_def)
    with that show ?thesis by (simp add: u8_def)
  next
    case False
    with inv have "accumulatedCount p = 255" by (simp add: sampling_inv_def)
    with that show ?thesis by (simp add: u8_def)
  qed
  have v: "\<not> list_ex railed (raw_samples cfg rd) \<Longrightarrow>
      0 \<le> sum_list (raw_samples cfg rd) div 2 ^ TEMP_OVERSAMPLE_BITS cfg
      \<and> sum_list (raw_samples cfg rd) div 2 ^ TEMP_OVERSAMPLE_BITS cfg \<le> 8176"
  proof -
    assume ok: "\<not> list_ex railed (raw_samples cfg rd)"
    have "(2::int) ^ TEMP_OVERSAMPLE_BITS cfg \<le> 2 ^ 3"
      using bits by (intro power_increasing) simp_all
    with oversampled_value [OF bits ok] show ?thesis by simp
  qed
  let ?q = "subperiod_rule cfg rd p"
  have cnt: "accumulatedCount ?q = u8 (accumulatedCount p + 1)"
    by (simp add: subperiod_rule_def Let_def)
  have acc: "0 \<le> accumulator ?q \<and> accumulator ?q < 65536"
    using v u16 [of "accumulator p + sum_list (raw_samples cfg rd) div 2 ^ TEMP_OVERSAMPLE_BITS cfg"]
    by (auto simp add: subperiod_rule_def Let_def)
  have first: "accumulator ?q \<le> 8176" if "accumulatedCount p = 0"
    using that v by (auto simp add: subperiod_rule_def Let_def)
  show ?thesis
    unfolding r sampling_inv_def using acc cnt u8 [of "accumulatedCount p + 1"] one first
    by auto
qed

lemma setProbeType_sampling_inv: "sampling_inv (setProbeType pt p)"
  by (simp add: sampling_inv_def setProbeType_def)

lemma calcTemp_tail_sampling:
  "accumulator (calcTemp_tail cfg lid p) = accumulator p"
  "accumulatedCount (calcTemp_tail cfg lid p) = accumulatedCount p"
  by (simp_all add: calcTemp_tail_def)

lemma setTemperatureC_sampling:
  "accumulator (setTemperatureC units T p) = accumulator p"
  "accumulatedCount (setTemperatureC units T p) = accumulatedCount p"
  by (simp_all add: setTemperatureC_def Let_def)

lemma calcTemp_sampling_inv:
  "sampling_inv p \<Longrightarrow> sampling_inv (calcTemp cfg units isPit lid p)"
  by (simp add: sampling_inv_def calcTemp_def Let_def calcTemp_tail_sampling
      setTemperatureC_sampling)

lemma updateStatus_disabled_low:
  "\<not> getLowEnabled a \<Longrightarrow>
   \<not> getLowEnabled (updateStatus lid v a)
   \<and> Armed (updateStatus lid v a) ALARM_IDX_LOW = Armed a ALARM_IDX_LOW
   \<and> (\<not> Ringing a ALARM_IDX_LOW \<longrightarrow> \<not> Ringing (updateStatus lid v a) ALARM_IDX_LOW)"
  by (auto simp: alarm_defs Let_def)

lemma updateStatus_disabled_high:
  "\<not> getHighEnabled a \<Longrightarrow>
   \<not> getHighEnabled (updateStatus lid v a)
   \<and> Armed (updateStatus lid v a) ALARM_IDX_HIGH = Armed a ALARM_IDX_HIGH
   \<and> (\<not> Ringing a ALARM_IDX_HIGH \<longrightarrow> \<not> Ringing (updateStatus lid v a) ALARM_IDX_HIGH)"
  by (auto simp: alarm_defs Let_def)

lemma disabled_low_stays:
  "\<not> getLowEnabled a \<Longrightarrow> \<not> Armed a ALARM_IDX_LOW \<Longrightarrow> \<not> Ringing a ALARM_IDX_LOW \<Longrightarrow>
   \<not> Armed (updateStatus_run es a) ALARM_IDX_LOW
   \<and> \<not> Ringing (updateStatus_run es a) ALARM_IDX_LOW"
proof (induction es arbitrary: a)
  case Nil
  then show ?case by simp
next
  case (Cons e es)
  obtain lid v where e: "e = (lid, v)" by (cases e)
  from updateStatus_disabled_low [OF Cons.prems(1), of lid v] Cons.prems(2,3)
  have "\<not> getLowEnabled (updateStatus lid v a)"
    "\<not> Armed (updateStatus lid v a) ALARM_IDX_LOW"
    "\<not> Ringing (updateStatus lid v a) ALARM_IDX_LOW"
    by simp_all
  from Cons.IH [OF this] e show ?case by simp
qed

lemma disabled_high_stays:
  "\<not> getHighEnabled a \<Longrightarrow> \<not> Armed a ALARM_IDX_HIGH \<Longrightarrow> \<not> Ringing a ALARM_IDX_HIGH \<Longrightarrow>
   \<not> Armed (updateStatus_run es a) ALARM_IDX_HIGH
   \<and> \<not> Ringing (updateStatus_run es a) ALARM_IDX_HIGH"
proof (induction es arbitrary: a)
  case Nil
  then show ?case by simp
next
  case (Cons e es)
  obtain lid v where e: "e = (lid, v)" by (cases e)
  from updateStatus_disabled_high [OF Cons.prems(1), of lid v] Cons.prems(2,3)
  have "\<not> getHighEnabled (updateStatus lid v a)"
    "\<not> Armed (updateStatus lid v a) ALARM_IDX_HIGH"
    "\<not> Ringing (updateStatus lid v a) ALARM_IDX_HIGH"
    by simp_all
  from Cons.IH [OF this] e show ?case by simp
qed

lemma calcPidOutput_frame:
  "Probes (calcPidOutput cfg lid s) = Probes s"
  "setPoint (calcPidOutput cfg lid s) = setPoint s"
  "pitTemperatureReached (calcPidOutput cfg lid s) = pitTemperatureReached s"
  "LidOpenResumeCountdown (calcPidOutput cfg lid s) = LidOpenResumeCountdown s"
  "lidOpenDuration (calcPidOutput cfg lid s) = lidOpenDuration s"
  "LidOpenOffset (calcPidOutput cfg lid s) = LidOpenOffset s"
  "PidOutputAvg (calcPidOutput cfg lid s) = PidOutputAvg s"
  "manualOutputMode (calcPidOutput cfg lid s) = manualOutputMode s"
  by (simp_all add: calcPidOutput_def Let_def)

lemma doWork_control_cases:
  "\<not> manualOutputMode s \<Longrightarrow>
   doWork_control cfg lid s =
     (let s1 = calcPidOutput cfg lid s
      in if temperature_reached_branch cfg s then
           (if \<not> pitTemperatureReached s
            then s1\<lparr>pitTemperatureReached := True,
                    pidCurrent := (pidCurrent s1)(PIDI := fmul (pidCurrent s1 PIDI) (Fin (25 / 100))),
                    LidOpenResumeCountdown := 0\<rparr>
            else s1\<lparr>LidOpenResumeCountdown := 0\<rparr>)
         else if LidOpenResumeCountdown s \<noteq> 0 then
           s1\<lparr>LidOpenResumeCountdown :=
                 u16 (LidOpenResumeCountdown s - c_div (TEMP_MEASURE_PERIOD cfg) 1000)\<rparr>
         else if lid_open_branch cfg s then resetLidOpenResumeCountdown s1
         else s1)"
  by (simp add: doWork_control_def Let_def calcPidOutput_frame temperature_reached_branch_def
      pitTemp_def lid_open_branch_def)

lemma s16_id: "\<bar>x\<bar> \<le> 32767 \<Longrightarrow> s16 x = x"
  by (simp add: s16_def)

lemma c_div_abs_le: "\<bar>c_div a b\<bar> \<le> \<bar>a\<bar>"
proof -
  have nn: "0 \<le> \<bar>a\<bar> div \<bar>b\<bar>"
    by (simp add: pos_imp_zdiv_nonneg_iff div_int_pos_iff)
  have "\<bar>c_div a b\<bar> = \<bar>sgn a\<bar> * \<bar>sgn b\<bar> * \<bar>\<bar>a\<bar> div \<bar>b\<bar>\<bar>"
    unfolding c_div_def by (simp only: abs_mult)
  also have "\<dots> = \<bar>sgn a\<bar> * \<bar>sgn b\<bar> * (\<bar>a\<bar> div \<bar>b\<bar>)"
    using nn by (simp only: abs_of_nonneg)
  also have "\<dots> \<le> 1 * 1 * (\<bar>a\<bar> div \<bar>b\<bar>)"
    using nn by (intro mult_mono) (simp_all add: abs_sgn_eq)
  also have "\<dots> \<le> \<bar>a\<bar>"
  proof (cases "b = 0")
    case True
    then show ?thesis by simp
  next
    case False
    have "\<bar>a\<bar> div \<bar>b\<bar> \<le> \<bar>a\<bar> div 1"
      using False by (intro zdiv_mono2) simp_all
    then show ?thesis by simp
  qed
  finally show ?thesis .
qed

lemma lid_open_percent_s16:
  assumes "\<bar>(x - y) * 100\<bar> \<le> 32767"
  shows "s16 (c_div (s16 (s16 (x - y) * 100)) x) = c_div ((x - y) * 100) x"
proof -
  have "\<bar>x - y\<bar> \<le> \<bar>(x - y) * 100\<bar>"
    by (simp add: abs_mult)
  with assms have d: "s16 (x - y) = x - y"
    by (intro s16_id) linarith
  have p: "s16 ((x - y) * 100) = (x - y) * 100"
    using assms by (rule s16_id)
  have "\<bar>c_div ((x - y) * 100) x\<bar> \<le> 32767"
    using c_div_abs_le [of "(x - y) * 100" x] assms by linarith
  then have "s16 (c_div ((x - y) * 100) x) = c_div ((x - y) * 100) x"
    by (rule s16_id)
  then show ?thesis by (simp only: d p)
qed

lemma lid_open_branch_detected:
  "percent_in_range cfg s \<Longrightarrow>
   lid_open_detected cfg s = (lid_open_branch cfg s \<and> LidOpenResumeCountdown s = 0)"
  by (auto simp add: percent_in_range_def lid_open_detected_def lid_open_branch_def
      lid_open_percent_s16)




lemmas lid_ex_defs = lid_ex_def grill_ex_def cfg_ex_def probe_at_def TEMP_PIT_def
  pitTemp_def temperature_reached_branch_def lid_open_detected_def lid_open_branch_def
  percent_in_range_def c_div_def u16_def s16_def


lemma getFanSpeed_requested:
  assumes "\<not> bit_is_set (outputFlags s) PIDFLAG_FAN_ONLY_MAX"
    and "0 \<le> pidOutput s" "pidOutput s \<le> 100" "0 \<le> maxFanSpeed s" "maxFanSpeed s \<le> 100"
  shows "getFanSpeed s = requested_fan_speed s"
    and "0 \<le> requested_fan_speed s" and "requested_fan_speed s \<le> 100"
proof -
  let ?r = "pidOutput s * maxFanSpeed s"
  have p: "0 \<le> ?r" "?r \<le> 100 * 100"
    using assms by (simp, intro mult_mono) simp_all
  then have r: "0 \<le> ?r div 100" "?r div 100 \<le> 100"
    by linarith+
  then show "0 \<le> requested_fan_speed s" "requested_fan_speed s \<le> 100"
    by (simp_all add: requested_fan_speed_def)
  from assms(2,3) have "pidOutput s mod 65536 = pidOutput s" by simp
  moreover from p have "?r mod 65536 = ?r" by simp
  moreover from r have "(?r div 100) mod 256 = ?r div 100" by simp
  ultimately show "getFanSpeed s = requested_fan_speed s"
    using assms(1) by (simp add: getFanSpeed_def requested_fan_speed_def u8_def u16_def)
qed

lemma mappct_duty:
  assumes "0 \<le> x" "x \<le> 100"
  shows "u8 (mappct x 0 255) = 255 * x div 100"
proof -
  have a: "x mod 65536 = x" using assms by simp
  have b: "(255 * x) mod 65536 = 255 * x" using assms by simp
  have c: "0 \<le> 255 * x div 100" "255 * x div 100 \<le> 255" using assms by linarith+
  then have d: "(255 * x div 100) mod 65536 = 255 * x div 100"
    "(255 * x div 100) mod 256 = 255 * x div 100" by simp_all
  show ?thesis
    unfolding mappct_def u8_def u16_def
    by (simp only: a b d diff_zero add_0_right)
qed

lemma long_pwm_slots_range:
  assumes "40 \<le> TEMP_MEASURE_PERIOD cfg" "TEMP_MEASURE_PERIOD cfg \<le> 10000"
  shows "10000 div u16 (TEMP_MEASURE_PERIOD cfg) = long_pwm_slots cfg"
    and "1 \<le> long_pwm_slots cfg" and "long_pwm_slots cfg \<le> 250"
proof -
  let ?p = "TEMP_MEASURE_PERIOD cfg"
  from assms have "?p mod 65536 = ?p" by simp
  then show "10000 div u16 ?p = long_pwm_slots cfg"
    by (simp add: u16_def long_pwm_slots_def)
  have "10000 div ?p \<le> 10000 div 40"
    using assms by (intro zdiv_mono2) simp_all
  then show "long_pwm_slots cfg \<le> 250" by (simp add: long_pwm_slots_def)
  have "10000 div 10000 \<le> 10000 div ?p"
    using assms by (intro zdiv_mono2) simp_all
  then show "1 \<le> long_pwm_slots cfg" by (simp add: long_pwm_slots_def)
qed

lemmas fan_ex_defs = grill_ex_def cfg_ex_def bit_is_set_def requested_fan_speed_def
  long_pwm_slots_def






text \<open>
  Beyond the 16 bits the wrapped product decides: at a setpoint of 400 and a pit
  temperature of 70 the product 33000 wraps to -32536, the percentage is -81, and the
  code declares no lid-open event.
\<close>

lemma doWork_control_wrapped_percentage:
  "lid_open_detected cfg_ex far_below_ex \<and> \<not> percent_in_range cfg_ex far_below_ex
   \<and> s16 (c_div (s16 (s16 (setPoint far_below_ex - pitTemp cfg_ex far_below_ex) * 100))
          (setPoint far_below_ex)) = - 81
   \<and> \<not> lid_open_branch cfg_ex far_below_ex
   \<and> LidOpenResumeCountdown (doWork_control cfg_ex False far_below_ex) = 0
   \<and> pitTemperatureReached (doWork_control cfg_ex False far_below_ex)"
proof -
  have f: "\<not> manualOutputMode far_below_ex" "\<not> temperature_reached_branch cfg_ex far_below_ex"
    "LidOpenResumeCountdown far_below_ex = 0" "pitTemperatureReached far_below_ex"
    "lid_open_detected cfg_ex far_below_ex" "\<not> percent_in_range cfg_ex far_below_ex"
    "s16 (c_div (s16 (s16 (setPoint far_below_ex - pitTemp cfg_ex far_below_ex) * 100))
          (setPoint far_below_ex)) = - 81"
    "\<not> lid_open_branch cfg_ex far_below_ex"
    by (simp_all add: far_below_ex_def lid_ex_defs)
  show ?thesis
    using f by (simp add: doWork_control_cases [OF f(1)] Let_def calcPidOutput_frame)
qed


subsection \<open>The PID step\<close>

text \<open>
  Claim C1. In an evaluation with a valid pit temperature and the lid not open, the
  integral term becomes the old term plus Ki times the error exactly when the error is
  positive and the previous output below 100, or the error is negative and the previous
  output above 0; otherwise it keeps its value. Over a run of evaluations in which the
  error stays positive and the previous output is 100 each time, the integral term at
  the end is the one at the start.
\<close>

theorem calcPidOutput_anti_windup:
  "(hasTemperature (Probes s TEMP_PIT) \<and> \<not> lid \<longrightarrow>
      pidCurrent (calcPidOutput cfg lid s) PIDI =
        (if (flt (Fin 0) (pid_error s) \<and> pidOutput s < 100)
            \<or> (flt (pid_error s) (Fin 0) \<and> 0 < pidOutput s)
         then fadd (pidCurrent s PIDI) (fmul (Pid s PIDI) (pid_error s))
         else pidCurrent s PIDI))
   \<and> (pinned_at_100 cfg es s \<longrightarrow>
        pidCurrent (calcPidOutput_run cfg es s) PIDI = pidCurrent s PIDI)"
  using calcPidOutput_PIDI pinned_run_PIDI by blast

theorem calcPidOutput_anti_windup_witness:
  "hasTemperature (Probes (grill_ex\<lparr>pidOutput := 50\<rparr>) TEMP_PIT)
   \<and> pidCurrent (calcPidOutput cfg_ex False (grill_ex\<lparr>pidOutput := 50\<rparr>)) PIDI = Fin (5 / 2)
   \<and> pinned_at_100 cfg_ex
       [(False, probe_at (Fin 100) (Fin 100)), (False, probe_at (Fin 110) (Fin 100))] grill_ex
   \<and> pidCurrent (calcPidOutput_run cfg_ex
        [(False, probe_at (Fin 100) (Fin 100)), (False, probe_at (Fin 110) (Fin 100))]
        grill_ex) PIDI = Fin 0"
proof -
  have p: "pinned_at_100 cfg_ex
      [(False, probe_at (Fin 100) (Fin 100)), (False, probe_at (Fin 110) (Fin 100))] grill_ex"
    by (simp add: ex_defs calcPidOutput_def Let_def)
  have h: "hasTemperature (Probes (grill_ex\<lparr>pidOutput := 50\<rparr>) TEMP_PIT)"
    by (simp add: ex_defs)
  show ?thesis
    using calcPidOutput_anti_windup [of "grill_ex\<lparr>pidOutput := 50\<rparr>" False cfg_ex
        "[(False, probe_at (Fin 100) (Fin 100)), (False, probe_at (Fin 110) (Fin 100))]"]
      calcPidOutput_anti_windup [of grill_ex False cfg_ex
        "[(False, probe_at (Fin 100) (Fin 100)), (False, probe_at (Fin 110) (Fin 100))]"] p h
    by (simp add: ex_defs)
qed

text \<open>
  Claim C3. When the pit probe has no valid temperature, or the lid is open, the PID
  step only sets the output to 0: the four term values, and the rest of the state, are
  as before. The step has no error result: it is a total function of the state.
\<close>

theorem calcPidOutput_degrades:
  "\<not> hasTemperature (Probes s TEMP_PIT) \<or> lid \<Longrightarrow>
   calcPidOutput cfg lid s = s\<lparr>pidOutput := 0\<rparr>
   \<and> pidOutput (calcPidOutput cfg lid s) = 0
   \<and> pidCurrent (calcPidOutput cfg lid s) = pidCurrent s"
  by (simp add: calcPidOutput_bail)

theorem calcPidOutput_degrades_witness:
  "\<not> hasTemperature (Probes (grill_ex\<lparr>Probes := (\<lambda>_. probe_at NaN NaN)\<rparr>) TEMP_PIT)
   \<and> pidOutput (calcPidOutput cfg_ex False (grill_ex\<lparr>Probes := (\<lambda>_. probe_at NaN NaN)\<rparr>)) = 0
   \<and> pidCurrent (calcPidOutput cfg_ex False (grill_ex\<lparr>Probes := (\<lambda>_. probe_at NaN NaN)\<rparr>)) PIDI
       = Fin 0
   \<and> pidOutput (calcPidOutput cfg_ex True grill_ex) = 0"
proof -
  let ?s = "grill_ex\<lparr>Probes := (\<lambda>_. probe_at NaN NaN)\<rparr>"
  have h: "\<not> hasTemperature (Probes ?s TEMP_PIT)"
    by (simp add: ex_defs)
  have a: "pidOutput (calcPidOutput cfg_ex False ?s) = 0
      \<and> pidCurrent (calcPidOutput cfg_ex False ?s) = pidCurrent ?s"
    using calcPidOutput_degrades [of ?s False cfg_ex] h by blast
  have b: "pidOutput (calcPidOutput cfg_ex True grill_ex) = 0"
    using calcPidOutput_degrades [of grill_ex True cfg_ex] by blast
  have c: "pidCurrent ?s PIDI = Fin 0"
    by (simp add: grill_ex_def)
  show ?thesis using h a b c by simp
qed

text \<open>
  Claim C10. After the PID step, and after \<^verbatim>\<open>setPidOutput\<close> with any integer
  argument, the stored output is between 0 and 100.
\<close>

theorem pidOutput_in_range:
  "0 \<le> pidOutput (calcPidOutput cfg lid s) \<and> pidOutput (calcPidOutput cfg lid s) \<le> 100
   \<and> 0 \<le> pidOutput (setPidOutput v s) \<and> pidOutput (setPidOutput v s) \<le> 100"
  using constrain_range [of 0 100]
  by (simp add: calcPidOutput_def setPidOutput_def Let_def u8_constrain)

theorem pidOutput_in_range_witness:
  "pidOutput (calcPidOutput cfg_ex False grill_ex) = 100
   \<and> pidOutput (setPidOutput 300 grill_ex) = 100 \<and> pidOutput (setPidOutput (- 5) grill_ex) = 0"
  using pidOutput_in_range [of cfg_ex False grill_ex 300]
    pidOutput_in_range [of cfg_ex False grill_ex "- 5"]
  by (simp add: ex_defs setPidOutput_def calcPidOutput_def Let_def)

subsection \<open>Alarms\<close>

text \<open>
  Claim C4. On an enabled low side \<^verbatim>\<open>updateStatus\<close> arms at a value of the low
  threshold plus 1 or more, and rings at a value below the threshold only if the side
  was armed already; on an enabled high side it arms at a value below the high threshold
  minus 1 and rings at a value at or above the threshold only if armed already. With
  the lid open both ringing flags come out false, and the armed flags are what they are
  with the lid closed.
\<close>

theorem updateStatus_hysteresis:
  "(getLowEnabled a \<longrightarrow>
      Armed (updateStatus lid v a) ALARM_IDX_LOW
        = (Armed a ALARM_IDX_LOW \<or> getLow a + 1 \<le> v)
    \<and> Ringing (updateStatus lid v a) ALARM_IDX_LOW
        = (\<not> lid \<and> (Ringing a ALARM_IDX_LOW \<or> (v < getLow a \<and> Armed a ALARM_IDX_LOW))))
 \<and> (getHighEnabled a \<longrightarrow>
      Armed (updateStatus lid v a) ALARM_IDX_HIGH
        = (Armed a ALARM_IDX_HIGH \<or> v < getHigh a - 1)
    \<and> Ringing (updateStatus lid v a) ALARM_IDX_HIGH
        = (\<not> lid \<and> (Ringing a ALARM_IDX_HIGH \<or> (getHigh a \<le> v \<and> Armed a ALARM_IDX_HIGH))))
 \<and> \<not> Ringing (updateStatus True v a) ALARM_IDX_LOW
 \<and> \<not> Ringing (updateStatus True v a) ALARM_IDX_HIGH
 \<and> Armed (updateStatus True v a) = Armed (updateStatus False v a)"
  by (auto simp: alarm_defs Let_def)

theorem updateStatus_hysteresis_witness:
  "getLowEnabled alarm_ex \<and> getHighEnabled alarm_ex
   \<and> Ringing (updateStatus False 99 alarm_ex) ALARM_IDX_LOW
   \<and> \<not> Ringing (updateStatus False 99 alarm_ex) ALARM_IDX_HIGH
   \<and> \<not> Ringing (updateStatus True 99 alarm_ex) ALARM_IDX_LOW
   \<and> getLowEnabled (setLow 100 alarm0)
   \<and> \<not> Armed (setLow 100 alarm0) ALARM_IDX_LOW
   \<and> \<not> Ringing (updateStatus False 99 (setLow 100 alarm0)) ALARM_IDX_LOW
   \<and> Armed (updateStatus False 101 (setLow 100 alarm0)) ALARM_IDX_LOW"
  using updateStatus_hysteresis [of alarm_ex False 99]
    updateStatus_hysteresis [of alarm_ex True 99]
    updateStatus_hysteresis [of "setLow 100 alarm0" False 99]
    updateStatus_hysteresis [of "setLow 100 alarm0" False 101]
  by (simp add: alarm_ex_def alarm0_def setLow_def setThreshold_def Let_def
      getLowEnabled_def getHighEnabled_def getLow_def getHigh_def)

text \<open>
  Claim C8, as amended. Setting a threshold clears the armed and the ringing flag of its
  side at once. The value 0 only silences: the stored threshold stays what it was. So a
  side without a threshold stays disabled, and no later evaluation arms or rings it; a
  side that had a threshold keeps it.
\<close>

theorem setThreshold_silences:
  "\<not> Armed (setThreshold idx v a) idx \<and> \<not> Ringing (setThreshold idx v a) idx
   \<and> Thresholds (setThreshold idx v a) idx = (if v = 0 then Thresholds a idx else v)
   \<and> (\<not> getLowEnabled a \<longrightarrow>
        \<not> Armed (updateStatus_run es (setThreshold ALARM_IDX_LOW 0 a)) ALARM_IDX_LOW
        \<and> \<not> Ringing (updateStatus_run es (setThreshold ALARM_IDX_LOW 0 a)) ALARM_IDX_LOW)
   \<and> (\<not> getHighEnabled a \<longrightarrow>
        \<not> Armed (updateStatus_run es (setThreshold ALARM_IDX_HIGH 0 a)) ALARM_IDX_HIGH
        \<and> \<not> Ringing (updateStatus_run es (setThreshold ALARM_IDX_HIGH 0 a)) ALARM_IDX_HIGH)"
  using disabled_low_stays [of "setThreshold ALARM_IDX_LOW 0 a" es]
    disabled_high_stays [of "setThreshold ALARM_IDX_HIGH 0 a" es]
  by (simp add: setThreshold_def Let_def getLowEnabled_def getHighEnabled_def)

theorem setThreshold_silences_witness:
  "\<not> getLowEnabled alarm0 \<and> \<not> getHighEnabled alarm0
   \<and> \<not> Armed (updateStatus_run [(False, 101), (False, 99)]
          (setThreshold ALARM_IDX_LOW 0 alarm0)) ALARM_IDX_LOW
   \<and> \<not> Ringing (updateStatus_run [(False, 101), (False, 99)]
          (setThreshold ALARM_IDX_HIGH 0 alarm0)) ALARM_IDX_HIGH
   \<and> Thresholds (setThreshold ALARM_IDX_LOW 0 alarm_ex) ALARM_IDX_LOW = 100"
proof -
  have h: "\<not> getLowEnabled alarm0" "\<not> getHighEnabled alarm0"
    by (simp_all add: getLowEnabled_def getHighEnabled_def alarm0_def)
  have t: "Thresholds alarm_ex ALARM_IDX_LOW = 100"
    by (simp add: alarm_ex_def)
  show ?thesis
    using h t setThreshold_silences [of ALARM_IDX_LOW 0 alarm0 "[(False, 101), (False, 99)]"]
      setThreshold_silences [of ALARM_IDX_LOW 0 alarm_ex "[]"]
    by simp
qed

text \<open>
  Claim C8 as it stands fails: a low threshold of 100, then set to 0, leaves the alarms
  as \<^verbatim>\<open>setLow(100)\<close> made them; the side is enabled, the value 101 arms it and the
  value 99 rings it.
\<close>

theorem setThreshold_zero_counterexample:
  "setLow 0 (setLow 100 alarm0) = setLow 100 alarm0
   \<and> getLowEnabled (setLow 0 (setLow 100 alarm0))
   \<and> Armed (updateStatus False 101 (setLow 0 (setLow 100 alarm0))) ALARM_IDX_LOW
   \<and> Ringing (updateStatus False 99 (updateStatus False 101 (setLow 0 (setLow 100 alarm0))))
        ALARM_IDX_LOW"
  by (simp add: alarm_defs setLow_def setThreshold_def alarm0_def Let_def)

subsection \<open>Sampling\<close>

text \<open>
  Claim C2, as amended. With at most 3 oversampling bits and a running mean below
  65024 (so that the unsigned comparison of \<^verbatim>\<open>DIFFMAX\<close> does not wrap around), one
  \<^verbatim>\<open>readTemp\<close> follows the rule of the claim with one case more: a value that would
  be added is added only to an accumulator that is not 0; an accumulator that is 0
  while the count is not (the period has been invalidated) stays 0. The conditions on
  the probe hold in every state that \<^verbatim>\<open>setProbeType\<close>, \<^verbatim>\<open>readTemp\<close> and
  \<^verbatim>\<open>calcTemp\<close> reach (\<open>sampling_inv\<close>).
\<close>

theorem readTemp_rule:
  assumes "TEMP_OVERSAMPLE_BITS cfg \<le> 3"
    and "0 \<le> accumulator p" and "0 \<le> accumulatedCount p"
    and "accumulator p div accumulatedCount p < 65024"
  shows "readTemp cfg rd p = subperiod_rule cfg rd p"
  using assms by (rule readTemp_subperiod_rule)

theorem readTemp_rule_witness:
  "TEMP_OVERSAMPLE_BITS cfg_ex \<le> 3 \<and> 0 \<le> accumulator probe_ex \<and> 0 \<le> accumulatedCount probe_ex
   \<and> accumulator probe_ex div accumulatedCount probe_ex < 65024
   \<and> accumulator (readTemp cfg_ex (\<lambda>_. 255) probe_ex) = 1010
   \<and> accumulatedCount (readTemp cfg_ex (\<lambda>_. 255) probe_ex) = 2
   \<and> accumulator (readTemp cfg_ex (\<lambda>k. if k = 2 then 1023 else 255) probe_ex) = 0"
proof -
  have h: "TEMP_OVERSAMPLE_BITS cfg_ex \<le> 3" "0 \<le> accumulator probe_ex"
    "0 \<le> accumulatedCount probe_ex" "accumulator probe_ex div accumulatedCount probe_ex < 65024"
    by (simp_all add: cfg_ex_def probe_ex_def probe_at_def)
  have s: "raw_samples cfg_ex (\<lambda>_. 255) = [255, 255, 255, 255]"
    "raw_samples cfg_ex (\<lambda>k. if k = 2 then 1023 else 255) = [255, 255, 1023, 255]"
    by (simp_all add: raw_samples_def cfg_ex_def OVERSAMPLE_COUNT_def u16_def upt_conv_Cons)
  show ?thesis
    using h readTemp_rule [OF h, of "\<lambda>_. 255"]
      readTemp_rule [OF h, of "\<lambda>k. if k = 2 then 1023 else 255"]
    by (simp add: subperiod_rule_def s railed_def Let_def u8_def u16_def)
       (simp add: cfg_ex_def probe_ex_def probe_at_def)
qed

text \<open>
  Claim C2 as it stands fails: after a sub-period of railed samples the accumulator is
  0 and the count 1; the next value, 100, is within 6.25 percent of the mean 0, and the
  code leaves the accumulator at 0 where the claim adds the value.
\<close>

theorem readTemp_counterexample:
  "accumulatedCount (readTemp cfg_ex (\<lambda>_. 1023) (probe_at NaN NaN)) = 1
   \<and> \<not> list_ex railed (raw_samples cfg_ex (\<lambda>_. 50))
   \<and> accumulator (readTemp cfg_ex (\<lambda>_. 50) (readTemp cfg_ex (\<lambda>_. 1023) (probe_at NaN NaN))) = 0
   \<and> accumulator (subperiod_as_claimed cfg_ex (\<lambda>_. 50)
        (readTemp cfg_ex (\<lambda>_. 1023) (probe_at NaN NaN))) = 100"
proof -
  have s0: "raw_samples cfg_ex (\<lambda>_. 1023) = [1023, 1023, 1023, 1023]"
    by (simp add: raw_samples_def cfg_ex_def OVERSAMPLE_COUNT_def u16_def upt_conv_Cons)
  have l0: "readTemp_loop (\<lambda>_. 1023) 0 (OVERSAMPLE_COUNT ! TEMP_OVERSAMPLE_BITS cfg_ex) 0 = None"
    by (simp add: readTemp_loop_samples s0 railed_def)
  have r0: "readTemp cfg_ex (\<lambda>_. 1023) (probe_at NaN NaN)
      = (probe_at NaN NaN)\<lparr>accumulatedCount := 1\<rparr>"
    unfolding readTemp_def l0 by (simp add: addAdcValue_def Let_def u8_def probe_at_def)
  have s: "raw_samples cfg_ex (\<lambda>_. 50) = [50, 50, 50, 50]"
    by (simp add: raw_samples_def cfg_ex_def OVERSAMPLE_COUNT_def u16_def upt_conv_Cons)
  have l: "readTemp_loop (\<lambda>_. 50) 0 (OVERSAMPLE_COUNT ! TEMP_OVERSAMPLE_BITS cfg_ex) 0 = Some 200"
    by (simp add: readTemp_loop_samples s railed_def u16_def)
  have b: "TEMP_OVERSAMPLE_BITS cfg_ex = 1"
    by (simp add: cfg_ex_def)
  have r: "readTemp cfg_ex (\<lambda>_. 50) q = addAdcValue cfg_ex 100 q" for q
    unfolding readTemp_def l by (simp add: b)
  show ?thesis
    unfolding r0
    by (simp add: s railed_def r b subperiod_as_claimed_def addAdcValue_def
        DIFFMAX_def Let_def u16_def u8_def probe_at_def)
qed


subsection \<open>Finalizing a period\<close>




subsection \<open>The lid-open state machine\<close>

text \<open>
  Claim C5, as amended. In a control period with manual override off, a setpoint that
  is not 0, and setpoint, integer pit temperature and the product (setpoint - pit) * 100
  all within the 16 bits of an \<^verbatim>\<open>int\<close>,
  in which the temperature-reached branch is not taken (the pit temperature
  as an integer is below the setpoint, or the duration exceeds the countdown by no more
  than \<^verbatim>\<open>LIDOPEN_MIN_AUTORESUME\<close>): under the conditions of a lid-open event the
  countdown becomes the configured duration and the temperature-reached flag is cleared;
  with a countdown of 0 and one of the other conditions failing, countdown and flag are
  unchanged; a countdown that is not 0 goes down by the seconds of a measure period, the
  flag unchanged.
\<close>

theorem doWork_lid_open_event:
  assumes "\<not> manualOutputMode s" and "setPoint s \<noteq> 0"
    and "\<not> temperature_reached_branch cfg s"
    and "percent_in_range cfg s"
  shows "(lid_open_detected cfg s \<longrightarrow>
            LidOpenResumeCountdown (doWork_control cfg lid s) = lidOpenDuration s
            \<and> \<not> pitTemperatureReached (doWork_control cfg lid s))
       \<and> (\<not> lid_open_detected cfg s \<and> LidOpenResumeCountdown s = 0 \<longrightarrow>
            LidOpenResumeCountdown (doWork_control cfg lid s) = LidOpenResumeCountdown s
            \<and> pitTemperatureReached (doWork_control cfg lid s) = pitTemperatureReached s)
       \<and> (LidOpenResumeCountdown s \<noteq> 0 \<longrightarrow>
            LidOpenResumeCountdown (doWork_control cfg lid s)
              = u16 (LidOpenResumeCountdown s - c_div (TEMP_MEASURE_PERIOD cfg) 1000)
            \<and> pitTemperatureReached (doWork_control cfg lid s) = pitTemperatureReached s)"
  using assms
  by (auto simp add: doWork_control_cases Let_def calcPidOutput_frame
      resetLidOpenResumeCountdown_def lid_open_branch_detected)

theorem doWork_lid_open_event_witness:
  "\<not> manualOutputMode lid_ex \<and> setPoint lid_ex \<noteq> 0 \<and> \<not> temperature_reached_branch cfg_ex lid_ex
   \<and> percent_in_range cfg_ex lid_ex \<and> lid_open_detected cfg_ex lid_ex
   \<and> LidOpenResumeCountdown (doWork_control cfg_ex False lid_ex) = 240
   \<and> \<not> pitTemperatureReached (doWork_control cfg_ex False lid_ex)
   \<and> \<not> lid_open_detected cfg_ex (lid_ex\<lparr>PidOutputAvg := Fin 95\<rparr>)
   \<and> LidOpenResumeCountdown (doWork_control cfg_ex False (lid_ex\<lparr>PidOutputAvg := Fin 95\<rparr>)) = 0
   \<and> pitTemperatureReached (doWork_control cfg_ex False (lid_ex\<lparr>PidOutputAvg := Fin 95\<rparr>))
   \<and> LidOpenResumeCountdown
        (doWork_control cfg_ex True (lid_ex\<lparr>LidOpenResumeCountdown := 100\<rparr>)) = 99"
proof -
  have h: "\<not> manualOutputMode lid_ex" "setPoint lid_ex \<noteq> 0"
    "\<not> temperature_reached_branch cfg_ex lid_ex" "percent_in_range cfg_ex lid_ex"
    "lid_open_detected cfg_ex lid_ex" "lidOpenDuration lid_ex = 240"
    by (simp_all add: lid_ex_defs)
  let ?s = "lid_ex\<lparr>PidOutputAvg := Fin 95\<rparr>"
  have h2: "\<not> manualOutputMode ?s" "setPoint ?s \<noteq> 0"
    "\<not> temperature_reached_branch cfg_ex ?s" "percent_in_range cfg_ex ?s"
    "\<not> lid_open_detected cfg_ex ?s"
    "LidOpenResumeCountdown ?s = 0" "pitTemperatureReached ?s"
    by (simp_all add: lid_ex_defs)
  let ?t = "lid_ex\<lparr>LidOpenResumeCountdown := 100\<rparr>"
  have h3: "\<not> manualOutputMode ?t" "setPoint ?t \<noteq> 0"
    "\<not> temperature_reached_branch cfg_ex ?t" "percent_in_range cfg_ex ?t"
    "LidOpenResumeCountdown ?t = 100"
    "u16 (100 - c_div (TEMP_MEASURE_PERIOD cfg_ex) 1000) = 99"
    by (simp_all add: lid_ex_defs)
  show ?thesis
    using h h2 h3 doWork_lid_open_event [OF h(1,2,3,4), of False]
      doWork_lid_open_event [OF h2(1,2,3,4), of False]
      doWork_lid_open_event [OF h3(1,2,3,4), of True]
    by simp
qed

text \<open>
  Claim C5 as it stands fails twice. A running countdown of 100 makes a condition fail,
  and the step changes the countdown to 99. And with a lid-open offset of 0 and the pit
  at the setpoint all conditions hold, but the temperature-reached branch comes first:
  the countdown is 0, not the duration 240, and the flag stays set.
\<close>

theorem doWork_lid_open_counterexample:
  "\<not> lid_open_detected cfg_ex (lid_ex\<lparr>LidOpenResumeCountdown := 100\<rparr>)
   \<and> LidOpenResumeCountdown (lid_ex\<lparr>LidOpenResumeCountdown := 100\<rparr>) = 100
   \<and> LidOpenResumeCountdown
        (doWork_control cfg_ex True (lid_ex\<lparr>LidOpenResumeCountdown := 100\<rparr>)) = 99
   \<and> \<not> manualOutputMode (lid_ex\<lparr>Probes := (\<lambda>_. probe_at (Fin 225) (Fin 225)), LidOpenOffset := 0\<rparr>)
   \<and> lid_open_detected cfg_ex
        (lid_ex\<lparr>Probes := (\<lambda>_. probe_at (Fin 225) (Fin 225)), LidOpenOffset := 0\<rparr>)
   \<and> LidOpenResumeCountdown (doWork_control cfg_ex False
        (lid_ex\<lparr>Probes := (\<lambda>_. probe_at (Fin 225) (Fin 225)), LidOpenOffset := 0\<rparr>)) = 0
   \<and> pitTemperatureReached (doWork_control cfg_ex False
        (lid_ex\<lparr>Probes := (\<lambda>_. probe_at (Fin 225) (Fin 225)), LidOpenOffset := 0\<rparr>))
   \<and> lidOpenDuration (lid_ex\<lparr>Probes := (\<lambda>_. probe_at (Fin 225) (Fin 225)), LidOpenOffset := 0\<rparr>)
        = 240"
proof -
  let ?t = "lid_ex\<lparr>LidOpenResumeCountdown := 100\<rparr>"
  have t: "\<not> manualOutputMode ?t" "\<not> temperature_reached_branch cfg_ex ?t"
    "LidOpenResumeCountdown ?t = 100" "\<not> lid_open_detected cfg_ex ?t" "lid_open_branch cfg_ex ?t"
    "u16 (100 - c_div (TEMP_MEASURE_PERIOD cfg_ex) 1000) = 99"
    by (simp_all add: lid_ex_defs)
  let ?u = "lid_ex\<lparr>Probes := (\<lambda>_. probe_at (Fin 225) (Fin 225)), LidOpenOffset := 0\<rparr>"
  have u: "\<not> manualOutputMode ?u" "temperature_reached_branch cfg_ex ?u"
    "pitTemperatureReached ?u" "lid_open_detected cfg_ex ?u" "lid_open_branch cfg_ex ?u"
    "lidOpenDuration ?u = 240"
    by (simp_all add: lid_ex_defs)
  show ?thesis
    using t u
    by (simp add: doWork_control_cases [OF t(1)] doWork_control_cases [OF u(1)] Let_def
        calcPidOutput_frame)
qed




subsection \<open>Fan output\<close>

text \<open>
  Claim C7, as amended. With the output flags for an inverted fan and for a fan only at
  maximum clear, output and fan speeds being percentages and a measure period between
  40 and 10000 ms: a requested fan speed at or above the minimum resets the long-pulse
  counter and hands \<^verbatim>\<open>analogWrite\<close> the duty 255 * requested / 100; a requested
  speed below the minimum hands it the duty of the minimum speed in the first
  N * requested / minimum of the N slots of the long pulse and 0 in the others, and
  the counter, when below N, goes up by one and wraps at N.
\<close>

theorem commitFanOutput_modulation:
  assumes flags: "\<not> bit_is_set (outputFlags s) PIDFLAG_FAN_ONLY_MAX"
      "\<not> bit_is_set (outputFlags s) PIDFLAG_INVERT_FAN"
    and out: "0 \<le> pidOutput s" "pidOutput s \<le> 100"
    and mx: "0 \<le> maxFanSpeed s" "maxFanSpeed s \<le> 100"
    and mn: "0 \<le> minFanSpeed s" "minFanSpeed s \<le> 100"
    and period: "40 \<le> TEMP_MEASURE_PERIOD cfg" "TEMP_MEASURE_PERIOD cfg \<le> 10000"
  shows "(minFanSpeed s \<le> requested_fan_speed s \<longrightarrow>
            longPwmTmr (commitFanOutput cfg s) = 0
            \<and> blowerOutput (commitFanOutput cfg s) = 255 * requested_fan_speed s div 100)
       \<and> (requested_fan_speed s < minFanSpeed s \<longrightarrow>
            blowerOutput (commitFanOutput cfg s) =
              (if longPwmTmr s < long_pwm_slots cfg * requested_fan_speed s div minFanSpeed s
               then 255 * minFanSpeed s div 100 else 0)
            \<and> (0 \<le> longPwmTmr s \<and> longPwmTmr s < long_pwm_slots cfg \<longrightarrow>
                 longPwmTmr (commitFanOutput cfg s) = (longPwmTmr s + 1) mod long_pwm_slots cfg))"
proof -
  note g = getFanSpeed_requested [OF flags(1) out mx]
  note n = long_pwm_slots_range [OF period]
  let ?r = "requested_fan_speed s"
  let ?N = "long_pwm_slots cfg"
  have hi: "minFanSpeed s \<le> ?r \<Longrightarrow>
      longPwmTmr (commitFanOutput cfg s) = 0
      \<and> blowerOutput (commitFanOutput cfg s) = 255 * ?r div 100"
    using flags(2) g(2,3)
    by (simp add: commitFanOutput_def Let_def g(1) mappct_duty split: prod.splits)
  have prod: "u16 (?N * ?r) = ?N * ?r"
  proof -
    have "0 \<le> ?N * ?r" using n g by simp
    moreover have "?N * ?r \<le> 250 * 100" using n g by (intro mult_mono) simp_all
    ultimately show ?thesis by (simp add: u16_def)
  qed
  have lo_duty: "?r < minFanSpeed s \<Longrightarrow>
      blowerOutput (commitFanOutput cfg s) =
        (if longPwmTmr s < ?N * ?r div minFanSpeed s then 255 * minFanSpeed s div 100 else 0)"
    using flags(2) mn mappct_duty [of "minFanSpeed s"] mappct_duty [of 0]
    by (simp add: commitFanOutput_def Let_def g(1) n(1) prod split: prod.splits)
  have lo_tmr: "longPwmTmr (commitFanOutput cfg s) = (longPwmTmr s + 1) mod ?N"
    if r: "?r < minFanSpeed s" and t: "0 \<le> longPwmTmr s" "longPwmTmr s < ?N"
  proof -
    have a: "u8 (longPwmTmr s + 1) = longPwmTmr s + 1"
      using t n by (simp add: u8_def)
    have b: "u16 (?N - 1) = ?N - 1"
      using n by (simp add: u16_def)
    have c: "longPwmTmr (commitFanOutput cfg s)
        = (if longPwmTmr s + 1 > ?N - 1 then 0 else longPwmTmr s + 1)"
      using r by (simp add: commitFanOutput_def Let_def g(1) n(1) a b split: prod.splits)
    show ?thesis
    proof (cases "longPwmTmr s + 1 > ?N - 1")
      case True
      with t have "longPwmTmr s + 1 = ?N" by simp
      with c show ?thesis by simp
    next
      case False
      with t have "(longPwmTmr s + 1) mod ?N = longPwmTmr s + 1" by simp
      with c False show ?thesis by simp
    qed
  qed
  from hi lo_duty lo_tmr show ?thesis by blast
qed

theorem commitFanOutput_modulation_witness:
  "\<not> bit_is_set (outputFlags grill_ex) PIDFLAG_FAN_ONLY_MAX
   \<and> \<not> bit_is_set (outputFlags grill_ex) PIDFLAG_INVERT_FAN
   \<and> minFanSpeed grill_ex = 25 \<and> maxFanSpeed grill_ex = 100 \<and> long_pwm_slots cfg_ex = 10
   \<and> blowerOutput (commitFanOutput cfg_ex (grill_ex\<lparr>pidOutput := 40, longPwmTmr := 0\<rparr>)) = 102
   \<and> longPwmTmr (commitFanOutput cfg_ex (grill_ex\<lparr>pidOutput := 40, longPwmTmr := 0\<rparr>)) = 0
   \<and> blowerOutput (commitFanOutput cfg_ex (grill_ex\<lparr>pidOutput := 10, longPwmTmr := 3\<rparr>)) = 63
   \<and> longPwmTmr (commitFanOutput cfg_ex (grill_ex\<lparr>pidOutput := 10, longPwmTmr := 3\<rparr>)) = 4
   \<and> blowerOutput (commitFanOutput cfg_ex (grill_ex\<lparr>pidOutput := 10, longPwmTmr := 9\<rparr>)) = 0
   \<and> longPwmTmr (commitFanOutput cfg_ex (grill_ex\<lparr>pidOutput := 10, longPwmTmr := 9\<rparr>)) = 0"
proof -
  have c: "40 \<le> TEMP_MEASURE_PERIOD cfg_ex" "TEMP_MEASURE_PERIOD cfg_ex \<le> 10000"
    "long_pwm_slots cfg_ex = 10"
    by (simp_all add: fan_ex_defs)
  have h: "\<not> bit_is_set (outputFlags (grill_ex\<lparr>pidOutput := x, longPwmTmr := t\<rparr>)) PIDFLAG_FAN_ONLY_MAX"
    "\<not> bit_is_set (outputFlags (grill_ex\<lparr>pidOutput := x, longPwmTmr := t\<rparr>)) PIDFLAG_INVERT_FAN"
    "0 \<le> maxFanSpeed (grill_ex\<lparr>pidOutput := x, longPwmTmr := t\<rparr>)"
    "maxFanSpeed (grill_ex\<lparr>pidOutput := x, longPwmTmr := t\<rparr>) \<le> 100"
    "0 \<le> minFanSpeed (grill_ex\<lparr>pidOutput := x, longPwmTmr := t\<rparr>)"
    "minFanSpeed (grill_ex\<lparr>pidOutput := x, longPwmTmr := t\<rparr>) \<le> 100"
    "minFanSpeed (grill_ex\<lparr>pidOutput := x, longPwmTmr := t\<rparr>) = 25"
    "requested_fan_speed (grill_ex\<lparr>pidOutput := x, longPwmTmr := t\<rparr>) = x"
    for x t
    by (simp_all add: fan_ex_defs)
  have a: "blowerOutput (commitFanOutput cfg_ex (grill_ex\<lparr>pidOutput := 40, longPwmTmr := 0\<rparr>)) = 102
      \<and> longPwmTmr (commitFanOutput cfg_ex (grill_ex\<lparr>pidOutput := 40, longPwmTmr := 0\<rparr>)) = 0"
    using commitFanOutput_modulation [of "grill_ex\<lparr>pidOutput := 40, longPwmTmr := 0\<rparr>" cfg_ex]
      h [where x = 40 and t = 0] c
    by simp
  have b: "blowerOutput (commitFanOutput cfg_ex (grill_ex\<lparr>pidOutput := 10, longPwmTmr := 3\<rparr>)) = 63
      \<and> longPwmTmr (commitFanOutput cfg_ex (grill_ex\<lparr>pidOutput := 10, longPwmTmr := 3\<rparr>)) = 4"
    using commitFanOutput_modulation [of "grill_ex\<lparr>pidOutput := 10, longPwmTmr := 3\<rparr>" cfg_ex]
      h [where x = 10 and t = 3] c
    by simp
  have d: "blowerOutput (commitFanOutput cfg_ex (grill_ex\<lparr>pidOutput := 10, longPwmTmr := 9\<rparr>)) = 0
      \<and> longPwmTmr (commitFanOutput cfg_ex (grill_ex\<lparr>pidOutput := 10, longPwmTmr := 9\<rparr>)) = 0"
    using commitFanOutput_modulation [of "grill_ex\<lparr>pidOutput := 10, longPwmTmr := 9\<rparr>" cfg_ex]
      h [where x = 10 and t = 9] c
    by simp
  have g: "\<not> bit_is_set (outputFlags grill_ex) PIDFLAG_FAN_ONLY_MAX"
    "\<not> bit_is_set (outputFlags grill_ex) PIDFLAG_INVERT_FAN"
    "minFanSpeed grill_ex = 25" "maxFanSpeed grill_ex = 100"
    by (simp_all add: fan_ex_defs)
  show ?thesis
    using a b d g c(3) by simp
qed

text \<open>
  Claim C7 as it stands fails with the fan inverted: in slot 9 of 10, with a request of
  10 below the minimum of 25 (on for the first 4 slots), the duty is 255 and not 0.
\<close>

theorem commitFanOutput_counterexample:
  "requested_fan_speed inverted_ex = 10 \<and> minFanSpeed inverted_ex = 25
   \<and> long_pwm_slots cfg_ex * requested_fan_speed inverted_ex div minFanSpeed inverted_ex = 4
   \<and> longPwmTmr inverted_ex = 9
   \<and> blowerOutput (commitFanOutput cfg_ex inverted_ex) = 255"
proof -
  have g: "getFanSpeed inverted_ex = 10"
    by (simp add: inverted_ex_def grill_ex_def getFanSpeed_def bit_is_set_def u8_def u16_def)
  have f: "minFanSpeed inverted_ex = 25" "maxFanSpeed inverted_ex = 100"
    "longPwmTmr inverted_ex = 9" "bit_is_set (outputFlags inverted_ex) PIDFLAG_INVERT_FAN"
    "TEMP_MEASURE_PERIOD cfg_ex = 1000" "pidOutput inverted_ex = 10"
    by (simp_all add: inverted_ex_def grill_ex_def bit_is_set_def cfg_ex_def)
  have "blowerOutput (commitFanOutput cfg_ex inverted_ex) = 255"
    by (simp add: commitFanOutput_def Let_def g f u8_def u16_def mappct_def)
  then show ?thesis
    by (simp add: f requested_fan_speed_def long_pwm_slots_def)
qed

end
